theory Spec2Isabelle
  imports Main "HOL-Library.Word"
begin

section \<open>Third-party login handshake: errors, responses, collaborators\<close>

text \<open>
  The development embeds \<^verbatim>\<open>modules/user/api_gitee.go\<close> (the handlers
  \<^verbatim>\<open>thirdAuthcode\<close>, \<^verbatim>\<open>thirdAuthStatus\<close>, \<^verbatim>\<open>giteeOAuth\<close>, \<^verbatim>\<open>mallOAuth\<close> and
  their helpers) and the webhook \<^verbatim>\<open>EchoooPush.Push\<close>.

  The Go error values are built from message strings, several of them not ASCII; each
  message of the source is one constructor here, the source line in the comment.
  \<open>External\<close> is an error value handed back by a collaborator (cache, network, JSON
  library, database, account subsystem) and passed on unchanged.
\<close>

datatype error =
    RedisSetError                 \<comment> \<open>errors.New("redis set error"), lines 34, 226, 366\<close>
  | GetLoginStatusFailed          \<comment> \<open>line 49: reading the login status failed\<close>
  | LoginStatusExpired            \<comment> \<open>line 53: the login status has expired\<close>
  | CodeEmpty                     \<comment> \<open>line 99: code must not be empty\<close>
  | MallTokenEmpty                \<comment> \<open>line 238: the mall token must not be empty\<close>
  | GetGiteeUserInfoFailed        \<comment> \<open>lines 114, 253: fetching the gitee user info failed\<close>
  | GiteeStatusCode int           \<comment> \<open>line 380: the same message with the HTTP status code\<close>
  | QueryGiteeUserFailed          \<comment> \<open>line 120\<close>
  | QueryMallUserFailed           \<comment> \<open>line 260\<close>
  | UserNotExist                  \<comment> \<open>lines 136, 276: the user does not exist\<close>
  | BeginTxFailed                 \<comment> \<open>lines 188, 328\<close>
  | InsertGiteeUserFailed         \<comment> \<open>line 196\<close>
  | InsertMallUserFailed          \<comment> \<open>line 336\<close>
  | CommitFailed                  \<comment> \<open>lines 206, 346\<close>
  | MallUnexpectedCode int string \<comment> \<open>line 460: response code and message\<close>
  | External string

text \<open>
  What a handler writes to its HTTP context. \<open>'r\<close> is the login result
  (\<^verbatim>\<open>loginUserDetailResp\<close>, declared outside the embedded files).
\<close>

datatype 'r response =
    ResponseError error            \<comment> \<open>c.ResponseError(err)\<close>
  | ResponseAuthcode string        \<comment> \<open>c.Response(gin.H{"authcode": authcode})\<close>
  | ResponseStatus int             \<comment> \<open>c.Response(gin.H{"status": n})\<close>
  | ResponseResult int "'r option" \<comment> \<open>c.Response(gin.H{"status": n, "result": loginResp})\<close>
  | ResponseLoginFailedPage        \<comment> \<open>c.String(http.StatusOK, ...), lines 230, 370\<close>

subsection \<open>The cache\<close>

text \<open>
  The cache connection (\<^verbatim>\<open>u.ctx.GetRedisConn()\<close>) is a collaborator: a key-value store
  with an expiry per key. An entry is its value and the instant (in seconds) at which it
  expires. A read of a key that is absent or expired gives the empty string and no error.
  Each operation can fail with an error of the cache; whether it does is an input
  (\<open>fault\<close>), and a failed operation leaves the store as it was.
\<close>

type_synonym redis = "string \<rightharpoonup> string \<times> nat"

definition Second :: nat where
  "Second = 1"

definition Minute :: nat where
  "Minute = 60 * Second"

definition SetAndExpire ::
  "error option \<Rightarrow> nat \<Rightarrow> string \<Rightarrow> string \<Rightarrow> nat \<Rightarrow> redis \<Rightarrow> error option \<times> redis" where
  "SetAndExpire fault t key v ttl r =
     (case fault of
        Some e \<Rightarrow> (Some e, r)
      | None \<Rightarrow> (None, r(key \<mapsto> (v, t + ttl))))"

definition GetString :: "error option \<Rightarrow> nat \<Rightarrow> string \<Rightarrow> redis \<Rightarrow> error + string" where
  "GetString fault t key r =
     (case fault of
        Some e \<Rightarrow> Inl e
      | None \<Rightarrow>
          (case r key of
             None \<Rightarrow> Inr []
           | Some (v, expires) \<Rightarrow> if t < expires then Inr v else Inr []))"

definition Del :: "error option \<Rightarrow> string \<Rightarrow> redis \<Rightarrow> error option \<times> redis" where
  "Del fault key r =
     (case fault of
        Some e \<Rightarrow> (Some e, r)
      | None \<Rightarrow> (None, r(key := None)))"

subsection \<open>Data of the callbacks\<close>

text \<open>A decoded JSON value as far as \<^verbatim>\<open>requestGiteeAccessToken\<close> looks at it.\<close>

datatype jvalue = JNull | JString string | JNotString

record giteeUserInfo =
  AvatarURL :: string
  Bio :: string
  Blog :: string
  CreatedAt :: string
  Email :: string
  EventsURL :: string
  Followers :: int
  FollowersURL :: string
  Following :: int
  FollowingURL :: string
  GistsURL :: string
  HtmlURL :: string
  ID :: int
  Login :: string
  MemberRole :: string
  Name :: string
  OrganizationsURL :: string
  PublicGists :: int
  PublicRepos :: int
  ReceivedEventsURL :: string
  Remark :: string
  ReposURL :: string
  Stared :: int
  StarredURL :: string
  SubscriptionsURL :: string
  Type :: string
  UpdatedAt :: string
  URL :: string
  Watched :: int
  Weibo :: string

text \<open>\<^verbatim>\<open>MallUser\<close>; a \<^verbatim>\<open>*string\<close> field is a \<open>string option\<close>.\<close>

record MallUser =
  mu_ID :: int
  mu_UserID :: string
  mu_Nickname :: "string option"
  mu_Description :: "string option"
  mu_Gender :: string
  mu_Birthday :: "string option"
  mu_Photo :: string
  mu_PhoneNumber :: "string option"
  mu_Email :: string
  mu_ThirdPartyEmail :: "string option"
  mu_SignUpType :: int
  mu_Platform :: string
  mu_GoogleUsername :: "string option"
  mu_AppleUsername :: "string option"
  mu_CreateTime :: string
  mu_UserType :: int
  mu_Deleted :: int
  mu_Status :: int

text \<open>
  \<^verbatim>\<open>MallResponse\<close>: the fields \<^verbatim>\<open>requestMallAccessToken\<close> reads (\<^verbatim>\<open>TraceID\<close>,
  \<^verbatim>\<open>Placeholder\<close> and \<^verbatim>\<open>Success\<close> are decoded and never looked at).
\<close>

record MallResponse =
  mr_Code :: int
  mr_Message :: string
  mr_Data :: MallUser

text \<open>
  \<^verbatim>\<open>gitUserInfoModel\<close>, with the fields the two \<^verbatim>\<open>toModel\<close> methods set.
\<close>

record gitUserInfoModel =
  gm_Id :: int
  gm_Login :: string
  gm_Name :: string
  gm_AvatarURL :: string
  gm_Bio :: string
  gm_Blog :: string
  gm_Email :: string
  gm_Remark :: string
  gm_EventsURL :: string
  gm_Followers :: int
  gm_Following :: int
  gm_GistsURL :: string
  gm_HtmlURL :: string
  gm_MemberRole :: string
  gm_OrganizationsURL :: string
  gm_PublicGists :: int
  gm_PublicRepos :: int
  gm_ReceivedEventsURL :: string
  gm_ReposURL :: string
  gm_Stared :: int
  gm_StarredURL :: string
  gm_SubscriptionsURL :: string
  gm_Type :: string
  gm_Weibo :: string
  gm_Watched :: int
  gm_GiteeCreatedAt :: string
  gm_GiteeUpdatedAt :: string

text \<open>
  The account row that \<^verbatim>\<open>queryWithGiteeUID\<close> returns, with the two fields the
  callbacks read.
\<close>

record userModel =
  um_UID :: string
  um_IsDestroy :: int

text \<open>\<^verbatim>\<open>createUserModel\<close>, with the fields the callbacks set (the others stay zero).\<close>

record createUserModel =
  cu_UID :: string
  cu_Zone :: string
  cu_Phone :: string
  cu_Password :: string
  cu_Name :: string
  cu_GiteeUID :: string
  cu_Flag :: int
  cu_IsUploadAvatar :: int

text \<open>\<^verbatim>\<open>SendSinglePushReq\<close> of the webhook.\<close>

record SendSinglePushReq =
  UserId :: string
  DeviceId :: string
  Lang :: string
  PushType :: int
  TemplateId :: int
  Params :: "(string \<times> string) list"

text \<open>
  The calls a handler makes to its collaborators, in the order it makes them. Cache
  operations are not listed (the store is explicit), nor are logging and tracing.
\<close>

datatype call =
    CallPostForWWWForm "(string \<times> string) list" \<comment> \<open>token exchange, the form fields\<close>
  | CallNetworkGet string                       \<comment> \<open>profile fetch, the URL\<close>
  | CallMallGet string string                   \<comment> \<open>mall profile fetch: URL, Authorization\<close>
  | CallQueryWithGiteeUID string
  | CallExecLogin userModel
  | CallSentWelcomeMsg string string            \<comment> \<open>go u.sentWelcomeMsg(publicIP, uid)\<close>
  | CallDownloadImage string
  | CallUploadFile string string                \<comment> \<open>path, content type\<close>
  | CallDBBegin
  | CallInsertTx gitUserInfoModel
  | CallCreateUserWithRespAndTx createUserModel string
  | CallTxCommit
  | CallTxRollback
  | CallHttpPost string SendSinglePushReq       \<comment> \<open>webhook: URL, JSON payload\<close>

text \<open>
  What one run of a handler leaves behind: the writes to the HTTP context, the store,
  the calls made, and whether the run ended in a Go panic.
\<close>

record 'r reply =
  writes :: "'r response list"
  store :: redis
  calls :: "call list"
  panicked :: bool

subsection \<open>The world of one handler run\<close>

text \<open>
  What happened to the commit callback that the callbacks hand to
  \<^verbatim>\<open>createUserWithRespAndTx\<close>: it was not called, or it was and
  \<^verbatim>\<open>tx.Commit()\<close> succeeded or failed.
\<close>

datatype commit = NoCommit | CommitOk | CommitErr

text \<open>
  Everything a handler run reads from outside: the clock, the configuration, the fresh
  identifier of \<^verbatim>\<open>util.GenerUUID()\<close>, the faults of the cache, and the answers of the
  collaborators (provider, JSON library, database, file service, account subsystem).
  A Go pair \<^verbatim>\<open>(value, err)\<close> whose two halves the code tests separately is a pair
  here; a pointer that may be nil is an \<open>option\<close>.
\<close>

record 'r world =
  now :: nat
  redis_get_fault :: "error option"
  redis_set_fault :: "error option"
  redis_del_fault :: "error option"
  GenerUUID :: string
  ToJson :: "'r \<Rightarrow> string"
  ReadJsonLogin :: "string \<Rightarrow> error + 'r option"
  cfg_APIBaseURL :: string
  cfg_GiteeClientID :: string
  cfg_GiteeClientSecret :: string
  cfg_AvatarPartition :: int
  config_APP :: "8 word"
  PostForWWWForm :: "(string \<times> string) list \<Rightarrow> error + (string \<rightharpoonup> jvalue)"
  network_Get :: "string \<Rightarrow> error + int \<times> string"
  ReadJsonUserInfo :: "string \<Rightarrow> error + giteeUserInfo option"
  client_Do :: "string \<Rightarrow> string \<Rightarrow> error + (error + string)"
  json_Unmarshal_Mall :: "string \<Rightarrow> error + MallResponse"
  queryWithGiteeUID :: "string \<Rightarrow> error + userModel option"
  execLogin :: "userModel \<Rightarrow> 'r option \<times> error option"
  DownloadImage :: "string \<Rightarrow> bool"
  crc32_ChecksumIEEE :: "string \<Rightarrow> 32 word"
  UploadFile :: "string \<Rightarrow> error option"
  DB_Begin :: "error option"
  insertTx :: "gitUserInfoModel \<Rightarrow> error option"
  createUserWithRespAndTx :: "createUserModel \<Rightarrow> commit \<times> 'r option \<times> error option"

text \<open>
  \<open>DownloadImage w url\<close> says whether the reader that comes back is not nil (the error
  of the download is dropped by the source). \<open>client_Do\<close> is \<^verbatim>\<open>client.Do\<close> followed by
  \<^verbatim>\<open>ioutil.ReadAll\<close>: the outer error is the request's, the inner one the read's.
\<close>

section \<open>Strings\<close>

definition ThirdAuthcodePrefix :: string where
  "ThirdAuthcodePrefix = ''thirdlogin:authcode:''"

definition ECHOOO_PUSH_UID :: string where
  "ECHOOO_PUSH_UID = ''tsdd:echooo:push_uid:''"

text \<open>\<^verbatim>\<open>strings.HasSuffix\<close>.\<close>

definition HasSuffix :: "string \<Rightarrow> string \<Rightarrow> bool" where
  "HasSuffix s suffix \<longleftrightarrow>
     length suffix \<le> length s \<and> drop (length s - length suffix) s = suffix"

text \<open>
  \<^verbatim>\<open>strings.TrimSpace\<close> on the bytes of a string: the white space of
  \<^verbatim>\<open>unicode.IsSpace\<close>, each code point as its UTF-8 bytes.
\<close>

definition byte :: "nat \<Rightarrow> char" where
  "byte n = char_of n"

definition space_runes :: "string list" where
  "space_runes =
     [[byte 9], [byte 10], [byte 11], [byte 12], [byte 13], [byte 32],
      [byte 0xC2, byte 0x85], [byte 0xC2, byte 0xA0],
      [byte 0xE1, byte 0x9A, byte 0x80]]
     @ map (\<lambda>n. [byte 0xE2, byte 0x80, byte (0x80 + n)]) [0 ..< 11]
     @ [[byte 0xE2, byte 0x80, byte 0xA8], [byte 0xE2, byte 0x80, byte 0xA9],
        [byte 0xE2, byte 0x80, byte 0xAF], [byte 0xE2, byte 0x81, byte 0x9F],
        [byte 0xE3, byte 0x80, byte 0x80]]"

definition rune_len :: "string list \<Rightarrow> string \<Rightarrow> nat" where
  "rune_len runes s =
     (case find (\<lambda>p. take (length p) s = p) runes of
        None \<Rightarrow> 0
      | Some p \<Rightarrow> length p)"

fun trim_runes :: "string list \<Rightarrow> string \<Rightarrow> string" where
  "trim_runes runes [] = []"
| "trim_runes runes (c # cs) =
     (case rune_len runes (c # cs) of
        0 \<Rightarrow> c # cs
      | Suc n \<Rightarrow> trim_runes runes (drop n cs))"

definition TrimSpace :: "string \<Rightarrow> string" where
  "TrimSpace s =
     rev (trim_runes (map rev space_runes) (rev (trim_runes space_runes s)))"

text \<open>\<^verbatim>\<open>strings.Split(s, ",")\<close>: one field more than there are separators.\<close>

fun Split :: "string \<Rightarrow> char \<Rightarrow> string list" where
  "Split [] sep = [[]]"
| "Split (c # cs) sep =
     (if c = sep then [] # Split cs sep
      else (case Split cs sep of
              [] \<Rightarrow> [[c]]
            | x # xs \<Rightarrow> (c # x) # xs))"

text \<open>The verb \<^verbatim>\<open>%d\<close> of \<^verbatim>\<open>fmt.Sprintf\<close> on an unsigned number.\<close>

fun decimal :: "nat \<Rightarrow> string" where
  "decimal n =
     (if n < 10 then [char_of (48 + n)]
      else decimal (n div 10) @ [char_of (48 + n mod 10)])"

declare decimal.simps [simp del]

section \<open>The handshake handlers\<close>

definition finish :: "'r response list \<Rightarrow> redis \<Rightarrow> call list \<Rightarrow> 'r reply" where
  "finish ws r cs = \<lparr>writes = ws, store = r, calls = cs, panicked = False\<rparr>"

definition panic :: "'r response list \<Rightarrow> redis \<Rightarrow> call list \<Rightarrow> 'r reply" where
  "panic ws r cs = \<lparr>writes = ws, store = r, calls = cs, panicked = True\<rparr>"

text \<open>\<^verbatim>\<open>thirdAuthcode\<close>, lines 29 to 41.\<close>

definition thirdAuthcode :: "'r world \<Rightarrow> redis \<Rightarrow> 'r reply" where
  "thirdAuthcode w r =
     (let authcode = GenerUUID w in
      case SetAndExpire (redis_set_fault w) (now w) (ThirdAuthcodePrefix @ authcode) ''1''
             (Minute * 5) r of
        (Some err, r') \<Rightarrow> finish [ResponseError RedisSetError] r' []
      | (None, r') \<Rightarrow> finish [ResponseAuthcode authcode] r' [])"

text \<open>
  \<^verbatim>\<open>thirdAuthStatus\<close>, lines 43 to 84. The error of \<^verbatim>\<open>Del\<close> is logged and dropped.
  The JSON text is decoded into a pointer, which the text \<^verbatim>\<open>null\<close> leaves nil.
\<close>

definition thirdAuthStatus :: "'r world \<Rightarrow> redis \<Rightarrow> string \<Rightarrow> 'r reply" where
  "thirdAuthStatus w r authcode =
     (let key = ThirdAuthcodePrefix @ authcode in
      case GetString (redis_get_fault w) (now w) key r of
        Inl err \<Rightarrow> finish [ResponseError GetLoginStatusFailed] r []
      | Inr result \<Rightarrow>
          if length result = 0 then finish [ResponseError LoginStatusExpired] r []
          else if result = ''1'' then finish [ResponseStatus 0] r []
          else if result = ''0'' then finish [ResponseStatus 2] r []
          else
            (let r' = snd (Del (redis_del_fault w) key r) in
             case ReadJsonLogin w result of
               Inl err \<Rightarrow> finish [ResponseError err] r' []
             | Inr loginResp \<Rightarrow> finish [ResponseResult 1 loginResp] r' []))"

subsection \<open>The provider\<close>

datatype 'a outcome = Returns 'a | Panics

definition token_form :: "'r world \<Rightarrow> string \<Rightarrow> (string \<times> string) list" where
  "token_form w code =
     [(''code'', code),
      (''client_id'', cfg_GiteeClientID w),
      (''redirect_uri'', cfg_APIBaseURL w @ ''/user/oauth/gitee''),
      (''client_secret'', cfg_GiteeClientSecret w)]"

text \<open>
  \<^verbatim>\<open>requestGiteeAccessToken\<close>, lines 389 to 409. The type assertion
  \<^verbatim>\<open>result["access_token"].(string)\<close> panics on a value that is not a string.
\<close>

definition requestGiteeAccessToken :: "'r world \<Rightarrow> string \<Rightarrow> (error + string) outcome" where
  "requestGiteeAccessToken w code =
     (case PostForWWWForm w (token_form w code) of
        Inl err \<Rightarrow> Returns (Inl err)
      | Inr result \<Rightarrow>
          (case result ''access_token'' of
             None \<Rightarrow> Returns (Inr [])
           | Some JNull \<Rightarrow> Returns (Inr [])
           | Some (JString accessToken) \<Rightarrow> Returns (Inr accessToken)
           | Some JNotString \<Rightarrow> Panics))"

definition user_url :: "string \<Rightarrow> string" where
  "user_url accessToken = ''https://gitee.com/api/v5/user?access_token='' @ accessToken"

text \<open>\<^verbatim>\<open>requestGiteeUserInfo\<close>, lines 373 to 387.\<close>

definition requestGiteeUserInfo :: "'r world \<Rightarrow> string \<Rightarrow> error + giteeUserInfo option" where
  "requestGiteeUserInfo w accessToken =
     (case network_Get w (user_url accessToken) of
        Inl err \<Rightarrow> Inl err
      | Inr (statusCode, body) \<Rightarrow>
          if statusCode \<noteq> 200 then Inl (GiteeStatusCode statusCode)
          else (case ReadJsonUserInfo w body of
                  Inl err \<Rightarrow> Inl err
                | Inr userInfo \<Rightarrow> Inr userInfo))"

definition mall_url :: "string \<Rightarrow> string" where
  "mall_url env =
     (if env = ''dev'' then ''https://mall-api.valleysound.xyz/user-service/user/get''
      else if env = ''prd'' then ''https://api.alvinclub.ca/user-service/user/get''
      else if env = ''stage'' then ''https://stage-api.alvinclub.ca/user-service/user/get''
      else ''https://mall-api.valleysound.xyz/user-service/user/get'')"

text \<open>
  \<^verbatim>\<open>requestMallAccessToken\<close>, lines 411 to 464. \<^verbatim>\<open>http.NewRequest\<close> cannot fail on
  the method and the URLs given here. The pointer returned on success is never nil.
\<close>

definition requestMallAccessToken :: "'r world \<Rightarrow> string \<Rightarrow> string \<Rightarrow> error + MallUser" where
  "requestMallAccessToken w code env =
     (case client_Do w (mall_url env) code of
        Inl err \<Rightarrow> Inl err
      | Inr (Inl err) \<Rightarrow> Inl err
      | Inr (Inr body) \<Rightarrow>
          (case json_Unmarshal_Mall w body of
             Inl err \<Rightarrow> Inl err
           | Inr response \<Rightarrow>
               if mr_Code response \<noteq> 200
               then Inl (MallUnexpectedCode (mr_Code response) (mr_Message response))
               else Inr (mr_Data response)))"

text \<open>\<^verbatim>\<open>(g *giteeUserInfo) toModel\<close>, lines 529 to 561.\<close>

definition gitee_toModel :: "giteeUserInfo \<Rightarrow> gitUserInfoModel" where
  "gitee_toModel g =
     \<lparr>gm_Id = ID g, gm_Login = Login g, gm_Name = Name g, gm_AvatarURL = AvatarURL g,
      gm_Bio = Bio g, gm_Blog = Blog g, gm_Email = Email g, gm_Remark = Remark g,
      gm_EventsURL = EventsURL g, gm_Followers = Followers g, gm_Following = Following g,
      gm_GistsURL = GistsURL g, gm_HtmlURL = HtmlURL g, gm_MemberRole = MemberRole g,
      gm_OrganizationsURL = OrganizationsURL g, gm_PublicGists = PublicGists g,
      gm_PublicRepos = PublicRepos g, gm_ReceivedEventsURL = ReceivedEventsURL g,
      gm_ReposURL = ReposURL g, gm_Stared = Stared g, gm_StarredURL = StarredURL g,
      gm_SubscriptionsURL = SubscriptionsURL g, gm_Type = Type g, gm_Weibo = Weibo g,
      gm_Watched = Watched g, gm_GiteeCreatedAt = CreatedAt g,
      gm_GiteeUpdatedAt = UpdatedAt g\<rparr>"

text \<open>\<^verbatim>\<open>(g *MallUser) toModel\<close>, lines 563 to 595.\<close>

definition mall_toModel :: "MallUser \<Rightarrow> gitUserInfoModel" where
  "mall_toModel g =
     \<lparr>gm_Id = mu_ID g, gm_Login = mu_UserID g, gm_Name = mu_UserID g,
      gm_AvatarURL = mu_Photo g, gm_Bio = mu_Gender g, gm_Blog = [], gm_Email = mu_Email g,
      gm_Remark = [], gm_EventsURL = ''g.EventsURL'', gm_Followers = 1, gm_Following = 1,
      gm_GistsURL = ''g.GistsURL'', gm_HtmlURL = ''g.HtmlURL'',
      gm_MemberRole = ''g.MemberRole'', gm_OrganizationsURL = ''g.OrganizationsURL'',
      gm_PublicGists = 1, gm_PublicRepos = 1,
      gm_ReceivedEventsURL = ''g.ReceivedEventsURL'', gm_ReposURL = ''g.ReposURL'',
      gm_Stared = 1, gm_StarredURL = ''g.StarredURL'',
      gm_SubscriptionsURL = ''g.SubscriptionsURL'', gm_Type = ''1'', gm_Weibo = ''g.Weibo'',
      gm_Watched = 1, gm_GiteeCreatedAt = mu_CreateTime g,
      gm_GiteeUpdatedAt = ''g.UpdatedAt''\<rparr>"

subsection \<open>The callbacks\<close>

text \<open>
  The two callbacks \<^verbatim>\<open>giteeOAuth\<close> (lines 96 to 231) and \<^verbatim>\<open>mallOAuth\<close> (lines 234 to
  371) are the same text from the account lookup on, apart from the profile fields they
  read and two error messages. The common parts are embedded once, with those as
  arguments. \<open>cs\<close> is the list of calls made so far, \<open>ws\<close> the writes made so far.
\<close>

text \<open>
  Lines 217 to 230 and 357 to 370: the login result, or \<^verbatim>\<open>"0"\<close> when it is nil, is
  written under the prefixed key for one minute. The handler then sleeps three seconds
  and writes its placeholder page.
\<close>

definition completeHandshake ::
  "'r world \<Rightarrow> redis \<Rightarrow> string \<Rightarrow> 'r response list \<Rightarrow> call list \<Rightarrow> 'r option \<Rightarrow> 'r reply" where
  "completeHandshake w r authcode ws cs loginResp =
     (let loginRespStr = (case loginResp of Some resp \<Rightarrow> ToJson w resp | None \<Rightarrow> ''0'') in
      case SetAndExpire (redis_set_fault w) (now w) (ThirdAuthcodePrefix @ authcode)
             loginRespStr (Minute * 1) r of
        (Some err, r') \<Rightarrow> finish (ws @ [ResponseError RedisSetError]) r' cs
      | (None, r') \<Rightarrow> finish (ws @ [ResponseLoginFailedPage]) r' cs)"

text \<open>
  Lines 134 to 146 and 274 to 286: the external identity is linked to an account.
  (\<^verbatim>\<open>userInfo == nil\<close> in the guard is false here: both callbacks have returned
  before on a nil profile.)
\<close>

definition loginExisting ::
  "'r world \<Rightarrow> redis \<Rightarrow> string \<Rightarrow> string \<Rightarrow> call list \<Rightarrow> userModel \<Rightarrow> 'r reply" where
  "loginExisting w r authcode publicIP cs userInfoM =
     (if um_IsDestroy userInfoM = 1 then finish [ResponseError UserNotExist] r cs
      else
        (case execLogin w userInfoM of
           (loginResp, Some err) \<Rightarrow>
             finish [ResponseError err] r (cs @ [CallExecLogin userInfoM])
         | (loginResp, None) \<Rightarrow>
             completeHandshake w r authcode []
               (cs @ [CallExecLogin userInfoM,
                      CallSentWelcomeMsg publicIP (um_UID userInfoM)])
               loginResp))"

text \<open>
  Lines 163 to 178 and 303 to 318: the avatar. The result says whether
  \<^verbatim>\<open>model.IsUploadAvatar\<close> is set to 1; it is \<open>None\<close> when the remainder by
  \<^verbatim>\<open>uint32(Avatar.Partition)\<close> divides by zero, which panics.
\<close>

definition avatar_path :: "32 word \<Rightarrow> string \<Rightarrow> string" where
  "avatar_path avatarID uid = ''avatar/'' @ decimal (unat avatarID) @ ''/'' @ uid @ ''.png''"

definition uploadAvatar :: "'r world \<Rightarrow> string \<Rightarrow> string \<Rightarrow> bool option \<times> call list" where
  "uploadAvatar w uid avatarURL =
     (if avatarURL \<noteq> [] \<and> \<not> HasSuffix avatarURL ''no_portrait.png'' then
        if DownloadImage w avatarURL then
          (let partition = (word_of_int (cfg_AvatarPartition w) :: 32 word) in
           if partition = 0 then (None, [CallDownloadImage avatarURL])
           else
             (let avatarID = crc32_ChecksumIEEE w uid mod partition;
                  path = avatar_path avatarID uid
              in case UploadFile w path of
                   Some err \<Rightarrow>
                     (Some False, [CallDownloadImage avatarURL, CallUploadFile path ''image/png''])
                 | None \<Rightarrow>
                     (Some True, [CallDownloadImage avatarURL, CallUploadFile path ''image/png''])))
        else (Some False, [CallDownloadImage avatarURL])
      else (Some False, []))"

text \<open>The commit callback of lines 201 to 210 and 341 to 350; it returns nil either way.\<close>

definition commit_calls :: "commit \<Rightarrow> call list" where
  "commit_calls cm =
     (case cm of
        NoCommit \<Rightarrow> []
      | CommitOk \<Rightarrow> [CallTxCommit]
      | CommitErr \<Rightarrow> [CallTxCommit, CallTxRollback])"

definition commit_writes :: "commit \<Rightarrow> 'r response list" where
  "commit_writes cm =
     (case cm of
        NoCommit \<Rightarrow> []
      | CommitOk \<Rightarrow> []
      | CommitErr \<Rightarrow> [ResponseError CommitFailed])"

text \<open>
  Lines 148 to 215 and 288 to 355: no account is linked, one is created. \<open>new_model\<close>
  is the literal of lines 154 to 162 (\<^verbatim>\<open>IsUploadAvatar\<close> is not set there and so is
  0; the flag is \<^verbatim>\<open>int(config.APP.Uint8())\<close>). The error of the upload lives in a
  variable that \<^verbatim>\<open>tx, err := ...\<close> shadows, so it is read by the test of line 174
  only.
\<close>

definition new_model :: "'r world \<Rightarrow> string \<Rightarrow> string \<Rightarrow> string \<Rightarrow> createUserModel" where
  "new_model w uid name extID =
     \<lparr>cu_UID = uid, cu_Zone = [], cu_Phone = [], cu_Password = [], cu_Name = name,
      cu_GiteeUID = extID, cu_Flag = uint (config_APP w), cu_IsUploadAvatar = 0\<rparr>"

definition provision ::
  "'r world \<Rightarrow> redis \<Rightarrow> string \<Rightarrow> string \<Rightarrow> call list \<Rightarrow> string \<Rightarrow> string \<Rightarrow> string \<Rightarrow>
   gitUserInfoModel \<Rightarrow> error \<Rightarrow> 'r reply" where
  "provision w r authcode publicIP cs name extID avatarURL gmodel insertErr =
     (let uid = GenerUUID w;
          model = new_model w uid name extID
      in case uploadAvatar w uid avatarURL of
           (None, cs1) \<Rightarrow> panic [] r (cs @ cs1)
         | (Some uploaded, cs1) \<Rightarrow>
             (let model = (if uploaded then model\<lparr>cu_IsUploadAvatar := 1\<rparr> else model) in
              case DB_Begin w of
                Some err \<Rightarrow> finish [ResponseError BeginTxFailed] r (cs @ cs1 @ [CallDBBegin])
              | None \<Rightarrow>
                  (case insertTx w gmodel of
                     Some err \<Rightarrow>
                       finish [ResponseError insertErr] r
                         (cs @ cs1 @ [CallDBBegin, CallInsertTx gmodel, CallTxRollback])
                   | None \<Rightarrow>
                       (case createUserWithRespAndTx w model of
                          (cm, loginResp, err) \<Rightarrow>
                            (let cs2 = cs @ cs1 @
                                   [CallDBBegin, CallInsertTx gmodel,
                                    CallCreateUserWithRespAndTx model publicIP]
                                   @ commit_calls cm;
                                 ws = commit_writes cm
                             in case err of
                                  Some e \<Rightarrow>
                                    finish (ws @ [ResponseError e]) r (cs2 @ [CallTxRollback])
                                | None \<Rightarrow>
                                    completeHandshake w r authcode ws cs2 loginResp)))))"

text \<open>
  Lines 117 to 122 and 134, or 257 to 262 and 274: the lookup of the linked account
  and the branch on its result.
\<close>

definition loginOrProvision ::
  "'r world \<Rightarrow> redis \<Rightarrow> string \<Rightarrow> string \<Rightarrow> call list \<Rightarrow> string \<Rightarrow> string \<Rightarrow> string \<Rightarrow>
   gitUserInfoModel \<Rightarrow> error \<Rightarrow> error \<Rightarrow> 'r reply" where
  "loginOrProvision w r authcode publicIP cs name extID avatarURL gmodel queryErr insertErr =
     (let cs' = cs @ [CallQueryWithGiteeUID extID] in
      case queryWithGiteeUID w extID of
        Inl err \<Rightarrow> finish [ResponseError queryErr] r cs'
      | Inr (Some userInfoM) \<Rightarrow> loginExisting w r authcode publicIP cs' userInfoM
      | Inr None \<Rightarrow>
          provision w r authcode publicIP cs' name extID avatarURL gmodel insertErr)"

text \<open>
  \<^verbatim>\<open>giteeOAuth\<close>: \<open>code\<close> and \<open>state\<close> are the query parameters, \<open>publicIP\<close> is
  \<^verbatim>\<open>util.GetClientPublicIP(c.Request)\<close>.
\<close>

definition giteeOAuth :: "'r world \<Rightarrow> redis \<Rightarrow> string \<Rightarrow> string \<Rightarrow> string \<Rightarrow> 'r reply" where
  "giteeOAuth w r code state publicIP =
     (if length code = 0 then finish [ResponseError CodeEmpty] r []
      else
        (let authcode = state;
             cs0 = [CallPostForWWWForm (token_form w code)]
         in case requestGiteeAccessToken w code of
              Panics \<Rightarrow> panic [] r cs0
            | Returns (Inl err) \<Rightarrow> finish [ResponseError err] r cs0
            | Returns (Inr accessToken) \<Rightarrow>
                (let cs1 = cs0 @ [CallNetworkGet (user_url accessToken)] in
                 case requestGiteeUserInfo w accessToken of
                   Inl err \<Rightarrow> finish [ResponseError err] r cs1
                 | Inr None \<Rightarrow> finish [ResponseError GetGiteeUserInfoFailed] r cs1
                 | Inr (Some userInfo) \<Rightarrow>
                     (let name = (if TrimSpace (Name userInfo) = [] then Login userInfo
                                  else Name userInfo)
                      in loginOrProvision w r authcode publicIP cs1 name (Login userInfo)
                           (AvatarURL userInfo) (gitee_toModel userInfo)
                           QueryGiteeUserFailed InsertGiteeUserFailed))))"

text \<open>
  \<^verbatim>\<open>mallOAuth\<close>: \<open>code\<close> is the query parameter \<^verbatim>\<open>token\<close>. The profile pointer is
  never nil, so the test of line 252 never fires.
\<close>

definition mallOAuth ::
  "'r world \<Rightarrow> redis \<Rightarrow> string \<Rightarrow> string \<Rightarrow> string \<Rightarrow> string \<Rightarrow> 'r reply" where
  "mallOAuth w r code env state publicIP =
     (if length code = 0 then finish [ResponseError MallTokenEmpty] r []
      else
        (let authcode = state;
             cs0 = [CallMallGet (mall_url env) code]
         in case requestMallAccessToken w code env of
              Inl err \<Rightarrow> finish [ResponseError err] r cs0
            | Inr userInfo \<Rightarrow>
                (let name = (if TrimSpace (mu_UserID userInfo) = [] then mu_UserID userInfo
                             else mu_UserID userInfo)
                 in loginOrProvision w r authcode publicIP cs0 name (mu_UserID userInfo)
                      (mu_Photo userInfo) (mall_toModel userInfo)
                      QueryMallUserFailed InsertMallUserFailed)))"

section \<open>The webhook push\<close>

datatype post_outcome =
    PostOk                 \<comment> \<open>err == nil\<close>
  | PostErrNoResp          \<comment> \<open>err != nil and resp == nil\<close>
  | PostErrWithResp        \<comment> \<open>err != nil and resp != nil (a failed redirect)\<close>

record push_world =
  p_now :: nat
  p_redis_get_fault :: "error option"
  p_redis_set_fault :: "error option"
  serverAddresses :: string
  http_Post :: "string \<Rightarrow> SendSinglePushReq \<Rightarrow> post_outcome"

record push_result =
  p_err :: "error option"
  p_store :: redis
  p_calls :: "call list"
  p_panicked :: bool

definition push_url :: "string \<Rightarrow> string" where
  "push_url server = ''http://'' @ server @ ''/inner/push/sendNotice''"

definition push_req :: "string \<Rightarrow> string \<Rightarrow> SendSinglePushReq" where
  "push_req uid content =
     \<lparr>UserId = uid, DeviceId = [], Lang = [], PushType = 3, TemplateId = 27,
      Params = [(''im_content'', content)]\<rparr>"

text \<open>
  The loop of lines 54 to 76. \<^verbatim>\<open>defer resp.Body.Close()\<close> stands before the test of
  \<^verbatim>\<open>err\<close> and reads \<^verbatim>\<open>resp.Body\<close> at once, so a failed request with a nil response
  panics. The error of \<^verbatim>\<open>SetAndExpire\<close> is dropped.
\<close>

fun push_servers ::
  "push_world \<Rightarrow> string \<Rightarrow> string \<Rightarrow> string \<Rightarrow> redis \<Rightarrow> call list \<Rightarrow> string list \<Rightarrow>
   push_result" where
  "push_servers w key uid content r cs [] =
     \<lparr>p_err = None, p_store = r, p_calls = cs, p_panicked = False\<rparr>"
| "push_servers w key uid content r cs (server # servers) =
     (let reqParam = push_req uid content;
          cs' = cs @ [CallHttpPost (push_url server) reqParam]
      in case http_Post w (push_url server) reqParam of
           PostErrNoResp \<Rightarrow> \<lparr>p_err = None, p_store = r, p_calls = cs', p_panicked = True\<rparr>
         | PostErrWithResp \<Rightarrow> push_servers w key uid content r cs' servers
         | PostOk \<Rightarrow>
             \<lparr>p_err = None,
              p_store = snd (SetAndExpire (p_redis_set_fault w) (p_now w) key ''1''
                               (Minute * 5) r),
              p_calls = cs', p_panicked = False\<rparr>)"

text \<open>\<^verbatim>\<open>(m *EchoooPush) Push\<close>, lines 36 to 79.\<close>

definition Push :: "push_world \<Rightarrow> redis \<Rightarrow> string \<Rightarrow> string \<Rightarrow> push_result" where
  "Push w r uid content =
     (let key = ECHOOO_PUSH_UID @ uid in
      case GetString (p_redis_get_fault w) (p_now w) key r of
        Inl err \<Rightarrow> \<lparr>p_err = Some err, p_store = r, p_calls = [], p_panicked = False\<rparr>
      | Inr result \<Rightarrow>
          if length result > 0
          then \<lparr>p_err = None, p_store = r, p_calls = [], p_panicked = False\<rparr>
          else if length (serverAddresses w) > 0
          then push_servers w key uid content r [] (Split (serverAddresses w) CHR '','')
          else \<lparr>p_err = None, p_store = r, p_calls = [], p_panicked = False\<rparr>)"

section \<open>Observations on a run\<close>

text \<open>The calls of the avatar pipeline.\<close>

definition is_avatar_call :: "call \<Rightarrow> bool" where
  "is_avatar_call c =
     (case c of
        CallDownloadImage url \<Rightarrow> True
      | CallUploadFile path contentType \<Rightarrow> True
      | _ \<Rightarrow> False)"

text \<open>The models with which account creation was called during a run.\<close>

fun created_models :: "call list \<Rightarrow> createUserModel list" where
  "created_models [] = []"
| "created_models (CallCreateUserWithRespAndTx model publicIP # cs) = model # created_models cs"
| "created_models (c # cs) = created_models cs"

text \<open>The login executions of a run.\<close>

fun login_calls :: "call list \<Rightarrow> userModel list" where
  "login_calls [] = []"
| "login_calls (CallExecLogin m # cs) = m # login_calls cs"
| "login_calls (c # cs) = login_calls cs"

text \<open>The requests the webhook sent to the servers \<open>servers\<close>, in order.\<close>

definition push_calls :: "string \<Rightarrow> string \<Rightarrow> string list \<Rightarrow> call list" where
  "push_calls uid content servers =
     map (\<lambda>server. CallHttpPost (push_url server) (push_req uid content)) servers"

section \<open>Concrete runs\<close>

text \<open>Inputs on which the theorems below are instantiated.\<close>

definition example_profile :: giteeUserInfo where
  "example_profile =
     \<lparr>AvatarURL = ''https://gitee.com/assets/ada.png'', Bio = [], Blog = [], CreatedAt = [],
      Email = [], EventsURL = [], Followers = 0, FollowersURL = [], Following = 0,
      FollowingURL = [], GistsURL = [], HtmlURL = [], ID = 7, Login = ''ada'',
      MemberRole = [], Name = ''Ada'', OrganizationsURL = [], PublicGists = 0,
      PublicRepos = 0, ReceivedEventsURL = [], Remark = [], ReposURL = [], Stared = 0,
      StarredURL = [], SubscriptionsURL = [], Type = [], UpdatedAt = [], URL = [],
      Watched = 0, Weibo = []\<rparr>"

definition example_mall_user :: MallUser where
  "example_mall_user =
     \<lparr>mu_ID = 9, mu_UserID = ''m-ada'', mu_Nickname = None, mu_Description = None,
      mu_Gender = [], mu_Birthday = None, mu_Photo = ''https://mall.example/ada.png'',
      mu_PhoneNumber = None, mu_Email = [], mu_ThirdPartyEmail = None, mu_SignUpType = 0,
      mu_Platform = [], mu_GoogleUsername = None, mu_AppleUsername = None,
      mu_CreateTime = [], mu_UserType = 0, mu_Deleted = 0, mu_Status = 0\<rparr>"

definition example_world :: "string world" where
  "example_world =
     \<lparr>now = 1000, redis_get_fault = None, redis_set_fault = None, redis_del_fault = None,
      GenerUUID = ''abc123'',
      ToJson = (\<lambda>resp. ''{'' @ resp @ ''}''),
      ReadJsonLogin = (\<lambda>s. if s = ''null'' then Inr None
                            else if 2 \<le> length s \<and> hd s = CHR ''{'' \<and> last s = CHR ''}''
                            then Inr (Some (butlast (tl s)))
                            else Inl (External ''invalid character'')),
      cfg_APIBaseURL = ''https://api.example'', cfg_GiteeClientID = ''id'',
      cfg_GiteeClientSecret = ''secret'', cfg_AvatarPartition = 100, config_APP = 0,
      PostForWWWForm = (\<lambda>form. Inr [''access_token'' \<mapsto> JString ''tok'']),
      network_Get = (\<lambda>url. Inr (200, ''body'')),
      ReadJsonUserInfo = (\<lambda>body. Inr (Some example_profile)),
      client_Do = (\<lambda>url auth. Inr (Inr ''body'')),
      json_Unmarshal_Mall =
        (\<lambda>body. Inr \<lparr>mr_Code = 200, mr_Message = [], mr_Data = example_mall_user\<rparr>),
      queryWithGiteeUID = (\<lambda>login. Inr None),
      execLogin = (\<lambda>m. (Some (um_UID m), None)),
      DownloadImage = (\<lambda>url. True),
      crc32_ChecksumIEEE = (\<lambda>s. 7),
      UploadFile = (\<lambda>path. None),
      DB_Begin = None,
      insertTx = (\<lambda>m. None),
      createUserWithRespAndTx = (\<lambda>m. (CommitOk, Some (cu_UID m), None))\<rparr>"


definition example_key :: string where
  "example_key = ThirdAuthcodePrefix @ ''abc123''"

definition pending_store :: redis where
  "pending_store = [example_key \<mapsto> (''1'', 1300)]"

definition failed_store :: redis where
  "failed_store = [example_key \<mapsto> (''0'', 1060)]"

definition result_store :: redis where
  "result_store = [example_key \<mapsto> (''{u1}'', 1060)]"

definition no_token_world :: "string world" where
  "no_token_world = example_world\<lparr>PostForWWWForm := (\<lambda>form. Inr Map.empty)\<rparr>"

definition exchange_fails_world :: "string world" where
  "exchange_fails_world =
     example_world\<lparr>PostForWWWForm := (\<lambda>form. Inl (External ''exchange failed''))\<rparr>"

definition profile_fails_world :: "string world" where
  "profile_fails_world = example_world\<lparr>network_Get := (\<lambda>url. Inr (500, []))\<rparr>"

definition destroyed_user :: userModel where
  "destroyed_user = \<lparr>um_UID = ''u1'', um_IsDestroy = 1\<rparr>"

definition destroyed_world :: "string world" where
  "destroyed_world = example_world\<lparr>queryWithGiteeUID := (\<lambda>login. Inr (Some destroyed_user))\<rparr>"

definition download_fails_world :: "string world" where
  "download_fails_world = example_world\<lparr>DownloadImage := (\<lambda>url. False)\<rparr>"

definition upload_fails_world :: "string world" where
  "upload_fails_world =
     example_world\<lparr>UploadFile := (\<lambda>path. Some (External ''upload failed''))\<rparr>"

definition no_portrait_profile :: giteeUserInfo where
  "no_portrait_profile =
     example_profile\<lparr>AvatarURL := ''https://gitee.com/assets/no_portrait.png''\<rparr>"

definition no_photo_user :: MallUser where
  "no_photo_user = example_mall_user\<lparr>mu_Photo := []\<rparr>"

definition no_portrait_world :: "string world" where
  "no_portrait_world =
     example_world
       \<lparr>ReadJsonUserInfo := (\<lambda>body. Inr (Some no_portrait_profile)),
        json_Unmarshal_Mall :=
          (\<lambda>body. Inr \<lparr>mr_Code = 200, mr_Message = [], mr_Data = no_photo_user\<rparr>)\<rparr>"

definition example_push_world :: push_world where
  "example_push_world =
     \<lparr>p_now = 10, p_redis_get_fault = None, p_redis_set_fault = None,
      serverAddresses = ''a:1,b:2'',
      http_Post = (\<lambda>url req. if url = push_url ''a:1'' then PostErrWithResp else PostOk)\<rparr>"

definition pushed_store :: redis where
  "pushed_store = [ECHOOO_PUSH_UID @ ''u1'' \<mapsto> (''1'', 310)]"

section \<open>Properties\<close>

subsection \<open>Reading the handshake entry\<close>

lemma example_world_simps [simp]:
  "now example_world = 1000"
  "redis_get_fault example_world = None"
  "redis_set_fault example_world = None"
  "redis_del_fault example_world = None"
  "GenerUUID example_world = ''abc123''"
  "ToJson example_world resp = ''{'' @ resp @ ''}''"
  "ReadJsonLogin example_world ''{u1}'' = Inr (Some ''u1'')"
  "cfg_AvatarPartition example_world = 100"
  "config_APP example_world = 0"
  "PostForWWWForm example_world form = Inr [''access_token'' \<mapsto> JString ''tok'']"
  "network_Get example_world url = Inr (200, ''body'')"
  "ReadJsonUserInfo example_world body = Inr (Some example_profile)"
  "client_Do example_world url auth = Inr (Inr ''body'')"
  "json_Unmarshal_Mall example_world body =
     Inr \<lparr>mr_Code = 200, mr_Message = [], mr_Data = example_mall_user\<rparr>"
  "queryWithGiteeUID example_world login = Inr None"
  "execLogin example_world m = (Some (um_UID m), None)"
  "DownloadImage example_world url = True"
  "crc32_ChecksumIEEE example_world uid = 7"
  "UploadFile example_world path = None"
  "DB_Begin example_world = None"
  "insertTx example_world gm = None"
  "createUserWithRespAndTx example_world cm = (CommitOk, Some (cu_UID cm), None)"
  by (simp_all add: example_world_def)

lemma GetString_live:
  "r key = Some (v, expires) \<Longrightarrow> t < expires \<Longrightarrow> GetString None t key r = Inr v"
  by (simp add: GetString_def)

lemma GetString_absent: "r key = None \<Longrightarrow> GetString None t key r = Inr []"
  by (simp add: GetString_def)

lemma thirdAuthStatus_pending:
  assumes "redis_get_fault w = None"
    and "r (ThirdAuthcodePrefix @ authcode) = Some (''1'', expires)"
    and "now w < expires"
  shows "thirdAuthStatus w r authcode = finish [ResponseStatus 0] r []"
  using assms by (simp add: thirdAuthStatus_def GetString_live)

lemma thirdAuthStatus_failed:
  assumes "redis_get_fault w = None"
    and "r (ThirdAuthcodePrefix @ authcode) = Some (''0'', expires)"
    and "now w < expires"
  shows "thirdAuthStatus w r authcode = finish [ResponseStatus 2] r []"
  using assms by (simp add: thirdAuthStatus_def GetString_live)

lemma thirdAuthStatus_absent:
  assumes "redis_get_fault w = None"
    and "r (ThirdAuthcodePrefix @ authcode) = None"
  shows "thirdAuthStatus w r authcode = finish [ResponseError LoginStatusExpired] r []"
  using assms by (simp add: thirdAuthStatus_def GetString_absent)

lemma thirdAuthStatus_result_store:
  assumes "redis_get_fault w = None" and "redis_del_fault w = None"
    and "r (ThirdAuthcodePrefix @ authcode) = Some (v, expires)"
    and "now w < expires"
    and "v \<noteq> []" and "v \<noteq> ''1''" and "v \<noteq> ''0''"
  shows "store (thirdAuthStatus w r authcode) = r(ThirdAuthcodePrefix @ authcode := None)"
  using assms
  by (simp add: thirdAuthStatus_def GetString_live Del_def finish_def Let_def
      split: sum.splits)

subsection \<open>Beginning a handshake\<close>

text \<open>
  Claim C3. \<^verbatim>\<open>thirdAuthcode\<close> writes the pending sentinel \<^verbatim>\<open>"1"\<close> under the prefixed
  key with an expiry of five minutes and answers with the generated token; it answers
  with an error exactly when the write to the store fails. A \<^verbatim>\<open>thirdAuthStatus\<close> for
  that token, run before the entry expires on any store whose entry under the key is
  still the one written, answers status 0 (pending) and leaves the store as it is.
\<close>

theorem thirdAuthcode_then_pending:
  fixes w w' :: "'r world"
  shows "(redis_set_fault w = None \<longrightarrow>
            thirdAuthcode w r =
              finish [ResponseAuthcode (GenerUUID w)]
                (r(ThirdAuthcodePrefix @ GenerUUID w \<mapsto> (''1'', now w + 5 * 60))) [])
       \<and> (\<forall>e. redis_set_fault w = Some e \<longrightarrow>
            thirdAuthcode w r = finish [ResponseError RedisSetError] r [])
       \<and> (redis_set_fault w = None \<and> redis_get_fault w' = None \<and> now w' < now w + 5 * 60
            \<and> r' (ThirdAuthcodePrefix @ GenerUUID w) =
                store (thirdAuthcode w r) (ThirdAuthcodePrefix @ GenerUUID w) \<longrightarrow>
            thirdAuthStatus w' r' (GenerUUID w) = finish [ResponseStatus 0] r' [])"
proof -
  have begin_ok: "thirdAuthcode w r =
      finish [ResponseAuthcode (GenerUUID w)]
        (r(ThirdAuthcodePrefix @ GenerUUID w \<mapsto> (''1'', now w + 5 * 60))) []"
    if "redis_set_fault w = None"
    using that by (simp add: thirdAuthcode_def SetAndExpire_def Minute_def Second_def Let_def)
  have begin_err: "thirdAuthcode w r = finish [ResponseError RedisSetError] r []"
    if "redis_set_fault w = Some e" for e
    using that by (simp add: thirdAuthcode_def SetAndExpire_def)
  have poll: "thirdAuthStatus w' r' (GenerUUID w) = finish [ResponseStatus 0] r' []"
    if "redis_set_fault w = None" and "redis_get_fault w' = None"
      and "now w' < now w + 5 * 60"
      and "r' (ThirdAuthcodePrefix @ GenerUUID w) =
           store (thirdAuthcode w r) (ThirdAuthcodePrefix @ GenerUUID w)"
  proof -
    have "r' (ThirdAuthcodePrefix @ GenerUUID w) = Some (''1'', now w + 5 * 60)"
      using that(4) by (simp add: begin_ok [OF that(1)] finish_def)
    then show ?thesis
      using that(2,3) by (rule_tac thirdAuthStatus_pending) auto
  qed
  show ?thesis
    using begin_ok begin_err poll by blast
qed

theorem thirdAuthcode_then_pending_witness:
  "thirdAuthcode example_world Map.empty =
     finish [ResponseAuthcode ''abc123''] [example_key \<mapsto> (''1'', 1300)] []
   \<and> thirdAuthcode (example_world\<lparr>redis_set_fault := Some (External ''connection refused'')\<rparr>)
        Map.empty = finish [ResponseError RedisSetError] Map.empty []
   \<and> thirdAuthStatus (example_world\<lparr>now := 1299\<rparr>) pending_store ''abc123'' =
       finish [ResponseStatus 0] pending_store []"
proof -
  note ok = thirdAuthcode_then_pending [of example_world Map.empty
      "example_world\<lparr>now := 1299\<rparr>" pending_store]
  note down = thirdAuthcode_then_pending [of
      "example_world\<lparr>redis_set_fault := Some (External ''connection refused'')\<rparr>"
      Map.empty example_world Map.empty]
  have a: "thirdAuthcode example_world Map.empty =
     finish [ResponseAuthcode ''abc123''] [example_key \<mapsto> (''1'', 1300)] []"
    using ok by (simp add: example_key_def)
  have b: "thirdAuthStatus (example_world\<lparr>now := 1299\<rparr>) pending_store ''abc123'' =
       finish [ResponseStatus 0] pending_store []"
    using ok a by (simp add: pending_store_def example_key_def finish_def)
  have c: "thirdAuthcode
      (example_world\<lparr>redis_set_fault := Some (External ''connection refused'')\<rparr>)
      Map.empty = finish [ResponseError RedisSetError] Map.empty []"
    using down by simp
  show ?thesis
    using a b c by simp
qed

subsection \<open>Polling a resolved handshake\<close>

text \<open>
  Claim C1 as stated fails on the failure sentinel: a poll that reads \<^verbatim>\<open>"0"\<close> answers
  status 2 and returns before the delete, so the entry stays and the next poll does not
  answer that the login status has expired.
\<close>

theorem thirdAuthStatus_terminal_counterexample:
  "thirdAuthStatus example_world failed_store ''abc123'' =
     finish [ResponseStatus 2] failed_store []
   \<and> thirdAuthStatus example_world
        (store (thirdAuthStatus example_world failed_store ''abc123'')) ''abc123'' \<noteq>
       finish [ResponseError LoginStatusExpired]
         (store (thirdAuthStatus example_world failed_store ''abc123'')) []"
proof -
  have "thirdAuthStatus example_world failed_store ''abc123'' =
     finish [ResponseStatus 2] failed_store []"
    by (rule thirdAuthStatus_failed [where expires = 1060])
       (simp_all add: failed_store_def example_key_def)
  then show ?thesis
    by (simp add: finish_def)
qed

text \<open>
  Claim C1, amended. When the live entry of an authcode holds a serialized login result
  (a value other than the empty string, \<^verbatim>\<open>"1"\<close> and \<^verbatim>\<open>"0"\<close>), the poll that reads it
  deletes the entry right after the read, provided the delete succeeds, and any later
  poll for the same authcode answers that the login status has expired. When the entry
  holds the failure sentinel \<^verbatim>\<open>"0"\<close>, the poll answers status 2 (failed) and leaves
  the store as it is.
\<close>

theorem thirdAuthStatus_consumes_result:
  fixes w w' :: "'r world"
  assumes "redis_get_fault w = None"
    and "r (ThirdAuthcodePrefix @ authcode) = Some (v, expires)"
    and "now w < expires"
  shows "(v \<noteq> [] \<and> v \<noteq> ''1'' \<and> v \<noteq> ''0'' \<and> redis_del_fault w = None
            \<and> redis_get_fault w' = None \<longrightarrow>
          store (thirdAuthStatus w r authcode) = r(ThirdAuthcodePrefix @ authcode := None)
          \<and> thirdAuthStatus w' (store (thirdAuthStatus w r authcode)) authcode =
              finish [ResponseError LoginStatusExpired]
                (store (thirdAuthStatus w r authcode)) [])
       \<and> (v = ''0'' \<longrightarrow> thirdAuthStatus w r authcode = finish [ResponseStatus 2] r [])"
proof (intro conjI impI)
  assume v: "v \<noteq> [] \<and> v \<noteq> ''1'' \<and> v \<noteq> ''0'' \<and> redis_del_fault w = None
    \<and> redis_get_fault w' = None"
  then show gone: "store (thirdAuthStatus w r authcode) =
      r(ThirdAuthcodePrefix @ authcode := None)"
    using assms by (simp add: thirdAuthStatus_result_store)
  show "thirdAuthStatus w' (store (thirdAuthStatus w r authcode)) authcode =
      finish [ResponseError LoginStatusExpired] (store (thirdAuthStatus w r authcode)) []"
    using v by (intro thirdAuthStatus_absent) (simp_all add: gone)
next
  assume "v = ''0''"
  then show "thirdAuthStatus w r authcode = finish [ResponseStatus 2] r []"
    using assms by (simp add: thirdAuthStatus_failed)
qed

theorem thirdAuthStatus_consumes_result_witness:
  "store (thirdAuthStatus example_world result_store ''abc123'') =
     result_store(ThirdAuthcodePrefix @ ''abc123'' := None)
   \<and> thirdAuthStatus (example_world\<lparr>now := 1001\<rparr>)
        (store (thirdAuthStatus example_world result_store ''abc123'')) ''abc123'' =
       finish [ResponseError LoginStatusExpired]
         (store (thirdAuthStatus example_world result_store ''abc123'')) []
   \<and> thirdAuthStatus example_world failed_store ''abc123'' =
       finish [ResponseStatus 2] failed_store []"
proof -
  have live: "result_store (ThirdAuthcodePrefix @ ''abc123'') = Some (''{u1}'', 1060)"
    "failed_store (ThirdAuthcodePrefix @ ''abc123'') = Some (''0'', 1060)"
    by (simp_all add: result_store_def failed_store_def example_key_def)
  have up: "redis_get_fault example_world = None" "now example_world < 1060"
    by simp_all
  note consumed = thirdAuthStatus_consumes_result
    [of example_world result_store "''abc123''" "''{u1}''" 1060
       "example_world\<lparr>now := 1001\<rparr>", OF up(1) live(1) up(2)]
  note failed = thirdAuthStatus_consumes_result
    [of example_world failed_store "''abc123''" "''0''" 1060 example_world,
     OF up(1) live(2) up(2)]
  have terminal: "''{u1}'' \<noteq> [] \<and> ''{u1}'' \<noteq> ''1'' \<and> ''{u1}'' \<noteq> ''0''
      \<and> redis_del_fault example_world = None
      \<and> redis_get_fault (example_world\<lparr>now := 1001\<rparr>) = None"
    by simp
  show ?thesis
    using consumed failed terminal by blast
qed

subsection \<open>Reaching the account lookup\<close>

lemma giteeOAuth_resolved:
  assumes "code \<noteq> []"
    and "requestGiteeAccessToken w code = Returns (Inr accessToken)"
    and "requestGiteeUserInfo w accessToken = Inr (Some userInfo)"
  shows "giteeOAuth w r code state publicIP =
           loginOrProvision w r state publicIP
             [CallPostForWWWForm (token_form w code), CallNetworkGet (user_url accessToken)]
             (if TrimSpace (Name userInfo) = [] then Login userInfo else Name userInfo)
             (Login userInfo) (AvatarURL userInfo) (gitee_toModel userInfo)
             QueryGiteeUserFailed InsertGiteeUserFailed"
  using assms by (simp add: giteeOAuth_def Let_def)

lemma mallOAuth_resolved:
  assumes "code \<noteq> []"
    and "requestMallAccessToken w code env = Inr userInfo"
  shows "mallOAuth w r code env state publicIP =
           loginOrProvision w r state publicIP [CallMallGet (mall_url env) code]
             (mu_UserID userInfo) (mu_UserID userInfo) (mu_Photo userInfo)
             (mall_toModel userInfo) QueryMallUserFailed InsertMallUserFailed"
  using assms by (simp add: mallOAuth_def Let_def)

lemma loginOrProvision_destroyed:
  assumes "queryWithGiteeUID w extID = Inr (Some userInfoM)"
    and "um_IsDestroy userInfoM = 1"
  shows "loginOrProvision w r authcode publicIP cs name extID avatarURL gmodel queryErr insertErr =
           finish [ResponseError UserNotExist] r (cs @ [CallQueryWithGiteeUID extID])"
  using assms by (simp add: loginOrProvision_def loginExisting_def Let_def)

lemma loginOrProvision_first_time:
  assumes "queryWithGiteeUID w extID = Inr None"
  shows "loginOrProvision w r authcode publicIP cs name extID avatarURL gmodel queryErr insertErr =
           provision w r authcode publicIP (cs @ [CallQueryWithGiteeUID extID]) name extID
             avatarURL gmodel insertErr"
  using assms by (simp add: loginOrProvision_def Let_def)

subsection \<open>A callback without a code\<close>

text \<open>
  Claim C6. A callback whose authorization code is empty (\<^verbatim>\<open>code\<close> for
  \<^verbatim>\<open>giteeOAuth\<close>, \<^verbatim>\<open>token\<close> for \<^verbatim>\<open>mallOAuth\<close>) answers at once with the
  empty-code error, calls no collaborator and leaves the store as it is; a pending
  entry of the given authcode is therefore still read as pending (status 0) by a poll
  before its expiry.
\<close>

theorem empty_code_leaves_pending:
  fixes w w' :: "'r world"
  shows "giteeOAuth w r [] state publicIP = finish [ResponseError CodeEmpty] r []
       \<and> mallOAuth w r [] env state publicIP = finish [ResponseError MallTokenEmpty] r []
       \<and> (redis_get_fault w' = None \<and> r (ThirdAuthcodePrefix @ state) = Some (''1'', expires)
            \<and> now w' < expires \<longrightarrow>
          thirdAuthStatus w' (store (giteeOAuth w r [] state publicIP)) state =
            finish [ResponseStatus 0] r []
          \<and> thirdAuthStatus w' (store (mallOAuth w r [] env state publicIP)) state =
              finish [ResponseStatus 0] r [])"
proof -
  have gitee: "giteeOAuth w r [] state publicIP = finish [ResponseError CodeEmpty] r []"
    by (simp add: giteeOAuth_def)
  have mall: "mallOAuth w r [] env state publicIP = finish [ResponseError MallTokenEmpty] r []"
    by (simp add: mallOAuth_def)
  have "thirdAuthStatus w' r state = finish [ResponseStatus 0] r []"
    if "redis_get_fault w' = None" "r (ThirdAuthcodePrefix @ state) = Some (''1'', expires)"
      "now w' < expires"
    using that by (rule thirdAuthStatus_pending)
  then show ?thesis
    by (simp add: gitee mall finish_def)
qed

theorem empty_code_leaves_pending_witness:
  "thirdAuthStatus (example_world\<lparr>now := 1299\<rparr>)
      (store (giteeOAuth example_world pending_store [] ''abc123'' ''1.2.3.4'')) ''abc123'' =
     finish [ResponseStatus 0] pending_store []
   \<and> thirdAuthStatus (example_world\<lparr>now := 1299\<rparr>)
      (store (mallOAuth example_world pending_store [] ''dev'' ''abc123'' ''1.2.3.4''))
      ''abc123'' = finish [ResponseStatus 0] pending_store []"
proof -
  have "redis_get_fault (example_world\<lparr>now := 1299\<rparr>) = None
      \<and> pending_store (ThirdAuthcodePrefix @ ''abc123'') = Some (''1'', 1300)
      \<and> now (example_world\<lparr>now := 1299\<rparr>) < 1300"
    by (simp add: pending_store_def example_key_def)
  then show ?thesis
    using empty_code_leaves_pending [of example_world pending_store "''abc123''" "''1.2.3.4''"
        "''dev''" "example_world\<lparr>now := 1299\<rparr>" 1300]
    by blast
qed

subsection \<open>The token exchange\<close>

text \<open>
  Claim C7 as stated fails: on an exchange response without an \<^verbatim>\<open>access_token\<close>,
  \<^verbatim>\<open>requestGiteeAccessToken\<close> returns the empty token and no error.
\<close>

theorem requestGiteeAccessToken_counterexample:
  "requestGiteeAccessToken no_token_world ''X'' = Returns (Inr [])"
  by (simp add: requestGiteeAccessToken_def no_token_world_def)

text \<open>
  Claim C7, amended. \<^verbatim>\<open>requestGiteeAccessToken\<close> returns an error exactly when the
  exchange request itself returns one, and then that error; when the response holds no
  \<^verbatim>\<open>access_token\<close> (the key is absent or its value is null) it returns successfully
  with the empty token.
\<close>

theorem requestGiteeAccessToken_errors:
  "(\<forall>e. requestGiteeAccessToken w code = Returns (Inl e) \<longleftrightarrow>
          PostForWWWForm w (token_form w code) = Inl e)
   \<and> (\<forall>result. PostForWWWForm w (token_form w code) = Inr result
          \<and> (result ''access_token'' = None \<or> result ''access_token'' = Some JNull) \<longrightarrow>
        requestGiteeAccessToken w code = Returns (Inr []))"
  by (auto simp: requestGiteeAccessToken_def split: sum.splits option.splits jvalue.splits)

theorem requestGiteeAccessToken_errors_witness:
  "requestGiteeAccessToken exchange_fails_world ''X'' = Returns (Inl (External ''exchange failed''))
   \<and> requestGiteeAccessToken no_token_world ''X'' = Returns (Inr [])"
proof -
  have "PostForWWWForm exchange_fails_world (token_form exchange_fails_world ''X'') =
      Inl (External ''exchange failed'')"
    by (simp add: exchange_fails_world_def)
  moreover have "PostForWWWForm no_token_world (token_form no_token_world ''X'') = Inr Map.empty
      \<and> (Map.empty ''access_token'' = (None :: jvalue option)
          \<or> Map.empty ''access_token'' = Some JNull)"
    by (simp add: no_token_world_def)
  ultimately show ?thesis
    using requestGiteeAccessToken_errors [of exchange_fails_world "''X''"]
      requestGiteeAccessToken_errors [of no_token_world "''X''"]
    by blast
qed


subsection \<open>A failing provider\<close>

lemma giteeOAuth_provider_error:
  assumes "code \<noteq> []"
    and "requestGiteeAccessToken w code = Returns (Inl e)
         \<or> (\<exists>accessToken. requestGiteeAccessToken w code = Returns (Inr accessToken)
               \<and> requestGiteeUserInfo w accessToken = Inl e)"
  shows "writes (giteeOAuth w r code state publicIP) = [ResponseError e]"
    and "store (giteeOAuth w r code state publicIP) = r"
  using assms by (auto simp: giteeOAuth_def Let_def finish_def)

text \<open>
  Claim C2 as stated fails: when the token exchange fails, the callback writes nothing,
  and a poll of the pending handshake still answers status 0 (pending), not 2.
\<close>

theorem provider_failure_counterexample:
  "requestGiteeAccessToken exchange_fails_world ''X'' = Returns (Inl (External ''exchange failed''))
   \<and> thirdAuthStatus example_world
        (store (giteeOAuth exchange_fails_world pending_store ''X'' ''abc123'' ''1.2.3.4''))
        ''abc123'' = finish [ResponseStatus 0] pending_store []"
proof -
  have failed: "requestGiteeAccessToken exchange_fails_world ''X'' =
      Returns (Inl (External ''exchange failed''))"
    by (simp add: requestGiteeAccessToken_def exchange_fails_world_def)
  then have "store (giteeOAuth exchange_fails_world pending_store ''X'' ''abc123'' ''1.2.3.4'') =
      pending_store"
    by (intro giteeOAuth_provider_error(2)) auto
  moreover have "thirdAuthStatus example_world pending_store ''abc123'' =
      finish [ResponseStatus 0] pending_store []"
    by (rule thirdAuthStatus_pending [where expires = 1300])
       (simp_all add: pending_store_def example_key_def)
  ultimately show ?thesis
    using failed by simp
qed

text \<open>
  Claim C2, amended. When the token exchange or the profile fetch of \<^verbatim>\<open>giteeOAuth\<close>
  fails, the callback answers with that error and writes nothing to the store: the
  entry of the authcode is unchanged, and a poll of a pending entry before its expiry
  still answers status 0 (pending).
\<close>

theorem provider_failure_writes_nothing:
  fixes w w' :: "'r world"
  assumes "code \<noteq> []"
    and "requestGiteeAccessToken w code = Returns (Inl e)
         \<or> (\<exists>accessToken. requestGiteeAccessToken w code = Returns (Inr accessToken)
               \<and> requestGiteeUserInfo w accessToken = Inl e)"
  shows "writes (giteeOAuth w r code state publicIP) = [ResponseError e]
       \<and> store (giteeOAuth w r code state publicIP) = r
       \<and> (redis_get_fault w' = None \<and> r (ThirdAuthcodePrefix @ state) = Some (''1'', expires)
            \<and> now w' < expires \<longrightarrow>
          thirdAuthStatus w' (store (giteeOAuth w r code state publicIP)) state =
            finish [ResponseStatus 0] r [])"
proof -
  note unchanged = giteeOAuth_provider_error [OF assms]
  have "thirdAuthStatus w' r state = finish [ResponseStatus 0] r []"
    if "redis_get_fault w' = None" "r (ThirdAuthcodePrefix @ state) = Some (''1'', expires)"
      "now w' < expires"
    using that by (rule thirdAuthStatus_pending)
  then show ?thesis
    by (simp add: unchanged)
qed

theorem provider_failure_writes_nothing_witness:
  "(writes (giteeOAuth exchange_fails_world pending_store ''X'' ''abc123'' ''1.2.3.4'') =
      [ResponseError (External ''exchange failed'')]
    \<and> thirdAuthStatus (example_world\<lparr>now := 1299\<rparr>)
         (store (giteeOAuth exchange_fails_world pending_store ''X'' ''abc123'' ''1.2.3.4''))
         ''abc123'' = finish [ResponseStatus 0] pending_store [])
   \<and> (writes (giteeOAuth profile_fails_world pending_store ''X'' ''abc123'' ''1.2.3.4'') =
        [ResponseError (GiteeStatusCode 500)]
      \<and> thirdAuthStatus (example_world\<lparr>now := 1299\<rparr>)
           (store (giteeOAuth profile_fails_world pending_store ''X'' ''abc123'' ''1.2.3.4''))
           ''abc123'' = finish [ResponseStatus 0] pending_store [])"
proof -
  have code: "''X'' \<noteq> []"
    by simp
  have exchange: "requestGiteeAccessToken exchange_fails_world ''X'' =
        Returns (Inl (External ''exchange failed''))
      \<or> (\<exists>accessToken.
            requestGiteeAccessToken exchange_fails_world ''X'' = Returns (Inr accessToken)
            \<and> requestGiteeUserInfo exchange_fails_world accessToken =
                Inl (External ''exchange failed''))"
    by (simp add: requestGiteeAccessToken_def exchange_fails_world_def)
  have profile: "requestGiteeAccessToken profile_fails_world ''X'' =
        Returns (Inl (GiteeStatusCode 500))
      \<or> (\<exists>accessToken.
            requestGiteeAccessToken profile_fails_world ''X'' = Returns (Inr accessToken)
            \<and> requestGiteeUserInfo profile_fails_world accessToken =
                Inl (GiteeStatusCode 500))"
    by (simp add: requestGiteeAccessToken_def requestGiteeUserInfo_def
        profile_fails_world_def)
  have poll: "redis_get_fault (example_world\<lparr>now := 1299\<rparr>) = None
      \<and> pending_store (ThirdAuthcodePrefix @ ''abc123'') = Some (''1'', 1300)
      \<and> now (example_world\<lparr>now := 1299\<rparr>) < 1300"
    by (simp add: pending_store_def example_key_def)
  show ?thesis
    using provider_failure_writes_nothing [OF code exchange, of pending_store "''abc123''"
        "''1.2.3.4''" "example_world\<lparr>now := 1299\<rparr>" 1300]
      provider_failure_writes_nothing [OF code profile, of pending_store "''abc123''"
        "''1.2.3.4''" "example_world\<lparr>now := 1299\<rparr>" 1300]
      poll
    by blast
qed

subsection \<open>A destroyed account\<close>

text \<open>
  Claim C5. When the external identity of a callback is linked to an account whose
  \<^verbatim>\<open>IsDestroy\<close> is 1, the callback answers that the user does not exist, never calls
  the login execution and writes nothing to the store. This holds for \<^verbatim>\<open>giteeOAuth\<close>
  and for \<^verbatim>\<open>mallOAuth\<close>.
\<close>

theorem destroyed_account_no_session:
  fixes w :: "'r world"
  shows "(code \<noteq> [] \<and> requestGiteeAccessToken w code = Returns (Inr accessToken)
            \<and> requestGiteeUserInfo w accessToken = Inr (Some userInfo)
            \<and> queryWithGiteeUID w (Login userInfo) = Inr (Some userInfoM)
            \<and> um_IsDestroy userInfoM = 1 \<longrightarrow>
          writes (giteeOAuth w r code state publicIP) = [ResponseError UserNotExist]
          \<and> login_calls (calls (giteeOAuth w r code state publicIP)) = []
          \<and> store (giteeOAuth w r code state publicIP) = r)
       \<and> (code \<noteq> [] \<and> requestMallAccessToken w code env = Inr mallUser
            \<and> queryWithGiteeUID w (mu_UserID mallUser) = Inr (Some userInfoM)
            \<and> um_IsDestroy userInfoM = 1 \<longrightarrow>
          writes (mallOAuth w r code env state publicIP) = [ResponseError UserNotExist]
          \<and> login_calls (calls (mallOAuth w r code env state publicIP)) = []
          \<and> store (mallOAuth w r code env state publicIP) = r)"
  by (simp add: giteeOAuth_resolved mallOAuth_resolved loginOrProvision_destroyed finish_def)

theorem destroyed_account_no_session_witness:
  "(writes (giteeOAuth destroyed_world pending_store ''X'' ''abc123'' ''1.2.3.4'') =
      [ResponseError UserNotExist]
    \<and> login_calls (calls (giteeOAuth destroyed_world pending_store ''X'' ''abc123'' ''1.2.3.4'')) = []
    \<and> store (giteeOAuth destroyed_world pending_store ''X'' ''abc123'' ''1.2.3.4'') =
        pending_store)
   \<and> (writes (mallOAuth destroyed_world pending_store ''X'' ''dev'' ''abc123'' ''1.2.3.4'') =
        [ResponseError UserNotExist]
      \<and> login_calls
           (calls (mallOAuth destroyed_world pending_store ''X'' ''dev'' ''abc123'' ''1.2.3.4'')) = []
      \<and> store (mallOAuth destroyed_world pending_store ''X'' ''dev'' ''abc123'' ''1.2.3.4'') =
          pending_store)"
proof -
  have gitee: "''X'' \<noteq> [] \<and> requestGiteeAccessToken destroyed_world ''X'' = Returns (Inr ''tok'')
      \<and> requestGiteeUserInfo destroyed_world ''tok'' = Inr (Some example_profile)
      \<and> queryWithGiteeUID destroyed_world (Login example_profile) = Inr (Some destroyed_user)
      \<and> um_IsDestroy destroyed_user = 1"
    by (simp add: requestGiteeAccessToken_def requestGiteeUserInfo_def destroyed_world_def
        destroyed_user_def)
  have mall: "''X'' \<noteq> [] \<and> requestMallAccessToken destroyed_world ''X'' ''dev'' = Inr example_mall_user
      \<and> queryWithGiteeUID destroyed_world (mu_UserID example_mall_user) = Inr (Some destroyed_user)
      \<and> um_IsDestroy destroyed_user = 1"
    by (simp add: requestMallAccessToken_def destroyed_world_def destroyed_user_def)
  show ?thesis
    using destroyed_account_no_session [of "''X''" destroyed_world "''tok''" example_profile
        destroyed_user pending_store "''abc123''" "''1.2.3.4''" "''dev''" example_mall_user]
      gitee mall
    by blast
qed

subsection \<open>Provisioning\<close>

lemma created_models_append:
  "created_models (xs @ ys) = created_models xs @ created_models ys"
  by (induction xs rule: created_models.induct) simp_all

lemma uploadAvatar_skipped:
  assumes "avatarURL = [] \<or> HasSuffix avatarURL ''no_portrait.png''"
  shows "uploadAvatar w uid avatarURL = (Some False, [])"
  using assms by (auto simp: uploadAvatar_def)

lemma uploadAvatar_failure:
  assumes "\<not> DownloadImage w avatarURL
           \<or> ((word_of_int (cfg_AvatarPartition w) :: 32 word) \<noteq> 0
              \<and> UploadFile w
                   (avatar_path
                      (crc32_ChecksumIEEE w uid mod word_of_int (cfg_AvatarPartition w)) uid)
                 \<noteq> None)"
  shows "\<exists>cs1. uploadAvatar w uid avatarURL = (Some False, cs1)"
  using assms by (auto simp: uploadAvatar_def Let_def)

lemma provision_plain:
  assumes "uploadAvatar w (GenerUUID w) avatarURL = (Some False, cs1)"
  shows "\<not> panicked (provision w r authcode publicIP cs name extID avatarURL gmodel insertErr)"
    and "CallDBBegin \<in>
           set (calls (provision w r authcode publicIP cs name extID avatarURL gmodel insertErr))"
    and "created_models
           (calls (provision w r authcode publicIP cs name extID avatarURL gmodel insertErr)) =
         created_models cs @ created_models cs1 @
           (if DB_Begin w = None \<and> insertTx w gmodel = None
            then [new_model w (GenerUUID w) name extID] else [])"
    and "filter is_avatar_call
           (calls (provision w r authcode publicIP cs name extID avatarURL gmodel insertErr)) =
         filter is_avatar_call (cs @ cs1)"
  using assms
  by (auto simp: provision_def Let_def finish_def completeHandshake_def SetAndExpire_def
      commit_calls_def created_models_append is_avatar_call_def
      split: option.splits prod.splits commit.splits)

lemma TrimSpace_Ada: "TrimSpace ''Ada'' = ''Ada''"
  by code_simp


lemma created_without_avatar:
  assumes "uploadAvatar w (GenerUUID w) avatarURL = (Some False, cs1)"
    and "created_models cs = []" and "created_models cs1 = []"
  shows "(\<forall>m \<in> set (created_models
            (calls (provision w r authcode publicIP cs name extID avatarURL gmodel insertErr))).
            cu_IsUploadAvatar m = 0)
       \<and> (DB_Begin w = None \<and> insertTx w gmodel = None \<longrightarrow>
            created_models
              (calls (provision w r authcode publicIP cs name extID avatarURL gmodel insertErr)) =
            [new_model w (GenerUUID w) name extID])"
  by (simp add: provision_plain(3) [OF assms(1)] assms(2,3) new_model_def)

lemma uploadAvatar_creates_nothing:
  "uploadAvatar w uid avatarURL = (b, cs1) \<Longrightarrow> created_models cs1 = []"
  by (auto simp: uploadAvatar_def Let_def split: if_splits option.splits)

lemma no_portrait_world_simps [simp]:
  "requestGiteeAccessToken no_portrait_world code = Returns (Inr ''tok'')"
  "requestGiteeUserInfo no_portrait_world accessToken = Inr (Some no_portrait_profile)"
  "requestMallAccessToken no_portrait_world code env = Inr no_photo_user"
  "queryWithGiteeUID no_portrait_world login = Inr None"
  "DB_Begin no_portrait_world = None"
  "insertTx no_portrait_world gm = None"
  "GenerUUID no_portrait_world = ''abc123''"
  by (simp_all add: requestGiteeAccessToken_def requestGiteeUserInfo_def
      requestMallAccessToken_def no_portrait_world_def)

lemma example_profile_simps [simp]:
  "Login example_profile = ''ada''"
  "Name example_profile = ''Ada''"
  "AvatarURL example_profile = ''https://gitee.com/assets/ada.png''"
  "mu_UserID example_mall_user = ''m-ada''"
  "mu_Photo example_mall_user = ''https://mall.example/ada.png''"
  by (simp_all add: example_profile_def example_mall_user_def)

text \<open>
  Claim C10. In a first-time provisioning whose profile has an empty avatar URL, or one
  that ends with \<^verbatim>\<open>no_portrait.png\<close>, the callback makes no download and no upload
  call, every account creation of the run is called with \<^verbatim>\<open>IsUploadAvatar\<close> 0, and
  when the transaction begins and the linked record is inserted the account creation is
  called once, with the model of lines 154 to 162 unchanged. This holds for
  \<^verbatim>\<open>giteeOAuth\<close> (field \<^verbatim>\<open>AvatarURL\<close>) and for \<^verbatim>\<open>mallOAuth\<close> (field \<^verbatim>\<open>Photo\<close>).
\<close>

theorem no_portrait_skips_avatar:
  fixes w :: "'r world"
  shows "(code \<noteq> [] \<and> requestGiteeAccessToken w code = Returns (Inr accessToken)
            \<and> requestGiteeUserInfo w accessToken = Inr (Some userInfo)
            \<and> queryWithGiteeUID w (Login userInfo) = Inr None
            \<and> (AvatarURL userInfo = [] \<or> HasSuffix (AvatarURL userInfo) ''no_portrait.png'') \<longrightarrow>
          filter is_avatar_call (calls (giteeOAuth w r code state publicIP)) = []
          \<and> (\<forall>m \<in> set (created_models (calls (giteeOAuth w r code state publicIP))).
                cu_IsUploadAvatar m = 0)
          \<and> (DB_Begin w = None \<and> insertTx w (gitee_toModel userInfo) = None \<longrightarrow>
                created_models (calls (giteeOAuth w r code state publicIP)) =
                [new_model w (GenerUUID w)
                   (if TrimSpace (Name userInfo) = [] then Login userInfo else Name userInfo)
                   (Login userInfo)]))
       \<and> (code \<noteq> [] \<and> requestMallAccessToken w code env = Inr mallUser
            \<and> queryWithGiteeUID w (mu_UserID mallUser) = Inr None
            \<and> (mu_Photo mallUser = [] \<or> HasSuffix (mu_Photo mallUser) ''no_portrait.png'') \<longrightarrow>
          filter is_avatar_call (calls (mallOAuth w r code env state publicIP)) = []
          \<and> (\<forall>m \<in> set (created_models (calls (mallOAuth w r code env state publicIP))).
                cu_IsUploadAvatar m = 0)
          \<and> (DB_Begin w = None \<and> insertTx w (mall_toModel mallUser) = None \<longrightarrow>
                created_models (calls (mallOAuth w r code env state publicIP)) =
                [new_model w (GenerUUID w) (mu_UserID mallUser) (mu_UserID mallUser)]))"
proof (intro conjI impI)
  assume a: "code \<noteq> [] \<and> requestGiteeAccessToken w code = Returns (Inr accessToken)
    \<and> requestGiteeUserInfo w accessToken = Inr (Some userInfo)
    \<and> queryWithGiteeUID w (Login userInfo) = Inr None
    \<and> (AvatarURL userInfo = [] \<or> HasSuffix (AvatarURL userInfo) ''no_portrait.png'')"
  let ?cs = "[CallPostForWWWForm (token_form w code), CallNetworkGet (user_url accessToken)]
    @ [CallQueryWithGiteeUID (Login userInfo)]"
  let ?name = "if TrimSpace (Name userInfo) = [] then Login userInfo else Name userInfo"
  have run: "giteeOAuth w r code state publicIP =
      provision w r state publicIP ?cs ?name (Login userInfo) (AvatarURL userInfo)
        (gitee_toModel userInfo) InsertGiteeUserFailed"
    using a by (simp add: giteeOAuth_resolved loginOrProvision_first_time)
  have skip: "uploadAvatar w (GenerUUID w) (AvatarURL userInfo) = (Some False, [])"
    using a by (simp add: uploadAvatar_skipped)
  show "filter is_avatar_call (calls (giteeOAuth w r code state publicIP)) = []"
    by (simp add: run provision_plain(4) [OF skip] is_avatar_call_def)
  have created: "created_models ?cs = []" "created_models [] = []"
    by simp_all
  note facts = created_without_avatar [OF skip created, of r state publicIP ?name
      "Login userInfo" "gitee_toModel userInfo" InsertGiteeUserFailed]
  show "\<forall>m \<in> set (created_models (calls (giteeOAuth w r code state publicIP))).
      cu_IsUploadAvatar m = 0"
    unfolding run using facts by blast
  show "created_models (calls (giteeOAuth w r code state publicIP)) =
      [new_model w (GenerUUID w) ?name (Login userInfo)]"
    if "DB_Begin w = None \<and> insertTx w (gitee_toModel userInfo) = None"
    unfolding run using facts that by blast
next
  assume a: "code \<noteq> [] \<and> requestMallAccessToken w code env = Inr mallUser
    \<and> queryWithGiteeUID w (mu_UserID mallUser) = Inr None
    \<and> (mu_Photo mallUser = [] \<or> HasSuffix (mu_Photo mallUser) ''no_portrait.png'')"
  let ?cs = "[CallMallGet (mall_url env) code] @ [CallQueryWithGiteeUID (mu_UserID mallUser)]"
  have run: "mallOAuth w r code env state publicIP =
      provision w r state publicIP ?cs (mu_UserID mallUser) (mu_UserID mallUser)
        (mu_Photo mallUser) (mall_toModel mallUser) InsertMallUserFailed"
    using a by (simp add: mallOAuth_resolved loginOrProvision_first_time)
  have skip: "uploadAvatar w (GenerUUID w) (mu_Photo mallUser) = (Some False, [])"
    using a by (simp add: uploadAvatar_skipped)
  show "filter is_avatar_call (calls (mallOAuth w r code env state publicIP)) = []"
    by (simp add: run provision_plain(4) [OF skip] is_avatar_call_def)
  have created: "created_models ?cs = []" "created_models [] = []"
    by simp_all
  note facts = created_without_avatar [OF skip created, of r state publicIP
      "mu_UserID mallUser" "mu_UserID mallUser" "mall_toModel mallUser" InsertMallUserFailed]
  show "\<forall>m \<in> set (created_models (calls (mallOAuth w r code env state publicIP))).
      cu_IsUploadAvatar m = 0"
    unfolding run using facts by blast
  show "created_models (calls (mallOAuth w r code env state publicIP)) =
      [new_model w (GenerUUID w) (mu_UserID mallUser) (mu_UserID mallUser)]"
    if "DB_Begin w = None \<and> insertTx w (mall_toModel mallUser) = None"
    unfolding run using facts that by blast
qed


theorem no_portrait_skips_avatar_witness:
  "(filter is_avatar_call
      (calls (giteeOAuth no_portrait_world Map.empty ''X'' ''abc123'' ''1.2.3.4'')) = []
    \<and> created_models (calls (giteeOAuth no_portrait_world Map.empty ''X'' ''abc123'' ''1.2.3.4'')) =
        [new_model no_portrait_world ''abc123'' ''Ada'' ''ada''])
   \<and> (filter is_avatar_call
        (calls (mallOAuth no_portrait_world Map.empty ''X'' ''dev'' ''abc123'' ''1.2.3.4'')) = []
      \<and> created_models
           (calls (mallOAuth no_portrait_world Map.empty ''X'' ''dev'' ''abc123'' ''1.2.3.4'')) =
          [new_model no_portrait_world ''abc123'' ''m-ada'' ''m-ada''])"
proof -
  have gitee: "''X'' \<noteq> [] \<and> requestGiteeAccessToken no_portrait_world ''X'' = Returns (Inr ''tok'')
      \<and> requestGiteeUserInfo no_portrait_world ''tok'' = Inr (Some no_portrait_profile)
      \<and> queryWithGiteeUID no_portrait_world (Login no_portrait_profile) = Inr None
      \<and> (AvatarURL no_portrait_profile = []
          \<or> HasSuffix (AvatarURL no_portrait_profile) ''no_portrait.png'')"
    by (simp add: no_portrait_profile_def HasSuffix_def)
  have mall: "''X'' \<noteq> [] \<and> requestMallAccessToken no_portrait_world ''X'' ''dev'' = Inr no_photo_user
      \<and> queryWithGiteeUID no_portrait_world (mu_UserID no_photo_user) = Inr None
      \<and> (mu_Photo no_photo_user = [] \<or> HasSuffix (mu_Photo no_photo_user) ''no_portrait.png'')"
    by (simp add: no_photo_user_def)
  have db: "DB_Begin no_portrait_world = None
      \<and> insertTx no_portrait_world (gitee_toModel no_portrait_profile) = None"
    "DB_Begin no_portrait_world = None
      \<and> insertTx no_portrait_world (mall_toModel no_photo_user) = None"
    by simp_all
  have names: "(if TrimSpace (Name no_portrait_profile) = [] then Login no_portrait_profile
       else Name no_portrait_profile) = ''Ada''"
    "Login no_portrait_profile = ''ada''" "mu_UserID no_photo_user = ''m-ada''"
    by (simp_all add: no_portrait_profile_def no_photo_user_def TrimSpace_Ada)
  show ?thesis
    using no_portrait_skips_avatar [of "''X''" no_portrait_world "''tok''" no_portrait_profile
        Map.empty "''abc123''" "''1.2.3.4''" "''dev''" no_photo_user]
      gitee mall db
    by (simp add: names)
qed

text \<open>
  Claim C4. In a first-time provisioning in which the avatar download gives no reader
  (a failed or timed-out download), or the upload is made and fails, the callback does
  not panic and goes on to begin the transaction; every account creation of the run is
  called with \<^verbatim>\<open>IsUploadAvatar\<close> 0, and when the transaction begins and the linked
  record is inserted the account creation is called once, with \<^verbatim>\<open>IsUploadAvatar\<close>
  still 0. This holds for \<^verbatim>\<open>giteeOAuth\<close> and for \<^verbatim>\<open>mallOAuth\<close>.
\<close>

theorem avatar_failure_still_provisions:
  fixes w :: "'r world"
  shows "(code \<noteq> [] \<and> requestGiteeAccessToken w code = Returns (Inr accessToken)
            \<and> requestGiteeUserInfo w accessToken = Inr (Some userInfo)
            \<and> queryWithGiteeUID w (Login userInfo) = Inr None
            \<and> (\<not> DownloadImage w (AvatarURL userInfo)
                \<or> ((word_of_int (cfg_AvatarPartition w) :: 32 word) \<noteq> 0
                   \<and> UploadFile w
                        (avatar_path
                           (crc32_ChecksumIEEE w (GenerUUID w)
                              mod word_of_int (cfg_AvatarPartition w))
                           (GenerUUID w)) \<noteq> None)) \<longrightarrow>
          \<not> panicked (giteeOAuth w r code state publicIP)
          \<and> CallDBBegin \<in> set (calls (giteeOAuth w r code state publicIP))
          \<and> (\<forall>m \<in> set (created_models (calls (giteeOAuth w r code state publicIP))).
                cu_IsUploadAvatar m = 0)
          \<and> (DB_Begin w = None \<and> insertTx w (gitee_toModel userInfo) = None \<longrightarrow>
                created_models (calls (giteeOAuth w r code state publicIP)) =
                [new_model w (GenerUUID w)
                   (if TrimSpace (Name userInfo) = [] then Login userInfo else Name userInfo)
                   (Login userInfo)]))
       \<and> (code \<noteq> [] \<and> requestMallAccessToken w code env = Inr mallUser
            \<and> queryWithGiteeUID w (mu_UserID mallUser) = Inr None
            \<and> (\<not> DownloadImage w (mu_Photo mallUser)
                \<or> ((word_of_int (cfg_AvatarPartition w) :: 32 word) \<noteq> 0
                   \<and> UploadFile w
                        (avatar_path
                           (crc32_ChecksumIEEE w (GenerUUID w)
                              mod word_of_int (cfg_AvatarPartition w))
                           (GenerUUID w)) \<noteq> None)) \<longrightarrow>
          \<not> panicked (mallOAuth w r code env state publicIP)
          \<and> CallDBBegin \<in> set (calls (mallOAuth w r code env state publicIP))
          \<and> (\<forall>m \<in> set (created_models (calls (mallOAuth w r code env state publicIP))).
                cu_IsUploadAvatar m = 0)
          \<and> (DB_Begin w = None \<and> insertTx w (mall_toModel mallUser) = None \<longrightarrow>
                created_models (calls (mallOAuth w r code env state publicIP)) =
                [new_model w (GenerUUID w) (mu_UserID mallUser) (mu_UserID mallUser)]))"
proof (intro conjI impI)
  assume a: "code \<noteq> [] \<and> requestGiteeAccessToken w code = Returns (Inr accessToken)
    \<and> requestGiteeUserInfo w accessToken = Inr (Some userInfo)
    \<and> queryWithGiteeUID w (Login userInfo) = Inr None
    \<and> (\<not> DownloadImage w (AvatarURL userInfo)
        \<or> ((word_of_int (cfg_AvatarPartition w) :: 32 word) \<noteq> 0
           \<and> UploadFile w
                (avatar_path
                   (crc32_ChecksumIEEE w (GenerUUID w) mod word_of_int (cfg_AvatarPartition w))
                   (GenerUUID w)) \<noteq> None))"
  let ?cs = "[CallPostForWWWForm (token_form w code), CallNetworkGet (user_url accessToken)]
    @ [CallQueryWithGiteeUID (Login userInfo)]"
  let ?name = "if TrimSpace (Name userInfo) = [] then Login userInfo else Name userInfo"
  have run: "giteeOAuth w r code state publicIP =
      provision w r state publicIP ?cs ?name (Login userInfo) (AvatarURL userInfo)
        (gitee_toModel userInfo) InsertGiteeUserFailed"
    using a by (simp add: giteeOAuth_resolved loginOrProvision_first_time)
  obtain cs1 where plain: "uploadAvatar w (GenerUUID w) (AvatarURL userInfo) = (Some False, cs1)"
    using a uploadAvatar_failure [of w "AvatarURL userInfo" "GenerUUID w"] by blast
  show "\<not> panicked (giteeOAuth w r code state publicIP)"
    unfolding run by (rule provision_plain(1) [OF plain])
  show "CallDBBegin \<in> set (calls (giteeOAuth w r code state publicIP))"
    unfolding run by (rule provision_plain(2) [OF plain])
  have created: "created_models ?cs = []" "created_models cs1 = []"
    using uploadAvatar_creates_nothing [OF plain] by simp_all
  note facts = created_without_avatar [OF plain created, of r state publicIP ?name
      "Login userInfo" "gitee_toModel userInfo" InsertGiteeUserFailed]
  show "\<forall>m \<in> set (created_models (calls (giteeOAuth w r code state publicIP))).
      cu_IsUploadAvatar m = 0"
    unfolding run using facts by blast
  show "created_models (calls (giteeOAuth w r code state publicIP)) =
      [new_model w (GenerUUID w) ?name (Login userInfo)]"
    if "DB_Begin w = None \<and> insertTx w (gitee_toModel userInfo) = None"
    unfolding run using facts that by blast
next
  assume a: "code \<noteq> [] \<and> requestMallAccessToken w code env = Inr mallUser
    \<and> queryWithGiteeUID w (mu_UserID mallUser) = Inr None
    \<and> (\<not> DownloadImage w (mu_Photo mallUser)
        \<or> ((word_of_int (cfg_AvatarPartition w) :: 32 word) \<noteq> 0
           \<and> UploadFile w
                (avatar_path
                   (crc32_ChecksumIEEE w (GenerUUID w) mod word_of_int (cfg_AvatarPartition w))
                   (GenerUUID w)) \<noteq> None))"
  let ?cs = "[CallMallGet (mall_url env) code] @ [CallQueryWithGiteeUID (mu_UserID mallUser)]"
  have run: "mallOAuth w r code env state publicIP =
      provision w r state publicIP ?cs (mu_UserID mallUser) (mu_UserID mallUser)
        (mu_Photo mallUser) (mall_toModel mallUser) InsertMallUserFailed"
    using a by (simp add: mallOAuth_resolved loginOrProvision_first_time)
  obtain cs1 where plain: "uploadAvatar w (GenerUUID w) (mu_Photo mallUser) = (Some False, cs1)"
    using a uploadAvatar_failure [of w "mu_Photo mallUser" "GenerUUID w"] by blast
  show "\<not> panicked (mallOAuth w r code env state publicIP)"
    unfolding run by (rule provision_plain(1) [OF plain])
  show "CallDBBegin \<in> set (calls (mallOAuth w r code env state publicIP))"
    unfolding run by (rule provision_plain(2) [OF plain])
  have created: "created_models ?cs = []" "created_models cs1 = []"
    using uploadAvatar_creates_nothing [OF plain] by simp_all
  note facts = created_without_avatar [OF plain created, of r state publicIP
      "mu_UserID mallUser" "mu_UserID mallUser" "mall_toModel mallUser" InsertMallUserFailed]
  show "\<forall>m \<in> set (created_models (calls (mallOAuth w r code env state publicIP))).
      cu_IsUploadAvatar m = 0"
    unfolding run using facts by blast
  show "created_models (calls (mallOAuth w r code env state publicIP)) =
      [new_model w (GenerUUID w) (mu_UserID mallUser) (mu_UserID mallUser)]"
    if "DB_Begin w = None \<and> insertTx w (mall_toModel mallUser) = None"
    unfolding run using facts that by blast
qed


theorem avatar_failure_still_provisions_witness:
  "(\<not> panicked (giteeOAuth download_fails_world Map.empty ''X'' ''abc123'' ''1.2.3.4'')
    \<and> created_models
         (calls (giteeOAuth download_fails_world Map.empty ''X'' ''abc123'' ''1.2.3.4'')) =
        [new_model download_fails_world ''abc123'' ''Ada'' ''ada''])
   \<and> (\<not> panicked (giteeOAuth upload_fails_world Map.empty ''X'' ''abc123'' ''1.2.3.4'')
      \<and> created_models
           (calls (giteeOAuth upload_fails_world Map.empty ''X'' ''abc123'' ''1.2.3.4'')) =
          [new_model upload_fails_world ''abc123'' ''Ada'' ''ada''])
   \<and> (\<not> panicked (mallOAuth download_fails_world Map.empty ''X'' ''dev'' ''abc123'' ''1.2.3.4'')
      \<and> created_models
           (calls (mallOAuth download_fails_world Map.empty ''X'' ''dev'' ''abc123'' ''1.2.3.4'')) =
          [new_model download_fails_world ''abc123'' ''m-ada'' ''m-ada''])"
proof -
  have download: "''X'' \<noteq> []
      \<and> requestGiteeAccessToken download_fails_world ''X'' = Returns (Inr ''tok'')
      \<and> requestGiteeUserInfo download_fails_world ''tok'' = Inr (Some example_profile)
      \<and> queryWithGiteeUID download_fails_world (Login example_profile) = Inr None
      \<and> (\<not> DownloadImage download_fails_world (AvatarURL example_profile)
          \<or> ((word_of_int (cfg_AvatarPartition download_fails_world) :: 32 word) \<noteq> 0
             \<and> UploadFile download_fails_world
                  (avatar_path
                     (crc32_ChecksumIEEE download_fails_world (GenerUUID download_fails_world)
                        mod word_of_int (cfg_AvatarPartition download_fails_world))
                     (GenerUUID download_fails_world)) \<noteq> None))"
    by (simp add: requestGiteeAccessToken_def requestGiteeUserInfo_def download_fails_world_def)
  have upload: "''X'' \<noteq> []
      \<and> requestGiteeAccessToken upload_fails_world ''X'' = Returns (Inr ''tok'')
      \<and> requestGiteeUserInfo upload_fails_world ''tok'' = Inr (Some example_profile)
      \<and> queryWithGiteeUID upload_fails_world (Login example_profile) = Inr None
      \<and> (\<not> DownloadImage upload_fails_world (AvatarURL example_profile)
          \<or> ((word_of_int (cfg_AvatarPartition upload_fails_world) :: 32 word) \<noteq> 0
             \<and> UploadFile upload_fails_world
                  (avatar_path
                     (crc32_ChecksumIEEE upload_fails_world (GenerUUID upload_fails_world)
                        mod word_of_int (cfg_AvatarPartition upload_fails_world))
                     (GenerUUID upload_fails_world)) \<noteq> None))"
    by (simp add: requestGiteeAccessToken_def requestGiteeUserInfo_def upload_fails_world_def)
  have mall: "''X'' \<noteq> []
      \<and> requestMallAccessToken download_fails_world ''X'' ''dev'' = Inr example_mall_user
      \<and> queryWithGiteeUID download_fails_world (mu_UserID example_mall_user) = Inr None
      \<and> (\<not> DownloadImage download_fails_world (mu_Photo example_mall_user)
          \<or> ((word_of_int (cfg_AvatarPartition download_fails_world) :: 32 word) \<noteq> 0
             \<and> UploadFile download_fails_world
                  (avatar_path
                     (crc32_ChecksumIEEE download_fails_world (GenerUUID download_fails_world)
                        mod word_of_int (cfg_AvatarPartition download_fails_world))
                     (GenerUUID download_fails_world)) \<noteq> None))"
    by (simp add: requestMallAccessToken_def download_fails_world_def)
  have db: "DB_Begin download_fails_world = None
      \<and> insertTx download_fails_world (gitee_toModel example_profile) = None"
    "DB_Begin upload_fails_world = None
      \<and> insertTx upload_fails_world (gitee_toModel example_profile) = None"
    "DB_Begin download_fails_world = None
      \<and> insertTx download_fails_world (mall_toModel example_mall_user) = None"
    by (simp_all add: download_fails_world_def upload_fails_world_def)
  have names: "(if TrimSpace (Name example_profile) = [] then Login example_profile
       else Name example_profile) = ''Ada''"
    "GenerUUID download_fails_world = ''abc123''" "GenerUUID upload_fails_world = ''abc123''"
    by (simp_all add: TrimSpace_Ada download_fails_world_def upload_fails_world_def)
  show ?thesis
    using avatar_failure_still_provisions [of "''X''" download_fails_world "''tok''"
        example_profile Map.empty "''abc123''" "''1.2.3.4''" "''dev''" example_mall_user]
      avatar_failure_still_provisions [of "''X''" upload_fails_world "''tok''"
        example_profile Map.empty "''abc123''" "''1.2.3.4''" "''dev''" example_mall_user]
      download upload mall db
    by (simp add: names TrimSpace_Ada)
qed

subsection \<open>The webhook push\<close>

lemma push_servers_sent:
  assumes "\<forall>s \<in> set pre. http_Post w (push_url s) (push_req uid content) = PostErrWithResp"
    and "http_Post w (push_url server) (push_req uid content) = PostOk"
  shows "push_servers w key uid content r cs (pre @ server # post) =
           \<lparr>p_err = None,
            p_store = snd (SetAndExpire (p_redis_set_fault w) (p_now w) key ''1'' (Minute * 5) r),
            p_calls = cs @ push_calls uid content (pre @ [server]),
            p_panicked = False\<rparr>"
  using assms
proof (induction pre arbitrary: cs)
  case Nil
  then show ?case by (simp add: push_calls_def Let_def)
next
  case (Cons s pre)
  then show ?case by (simp add: push_calls_def Let_def)
qed

lemma Push_suppressed:
  assumes "p_redis_get_fault w = None"
    and "r (ECHOOO_PUSH_UID @ uid) = Some (v, expires)" and "v \<noteq> []"
    and "p_now w < expires"
  shows "Push w r uid content = \<lparr>p_err = None, p_store = r, p_calls = [], p_panicked = False\<rparr>"
  using assms by (simp add: Push_def GetString_live)

text \<open>
  Claim C9. When the deduplication key of a recipient is present in the cache, \<^verbatim>\<open>Push\<close>
  sends no request and returns nil. When the key is absent and a request succeeds
  (the servers before it having failed with a response), \<^verbatim>\<open>Push\<close> has sent to the
  servers up to that one and writes the marker \<^verbatim>\<open>"1"\<close> under the key with an expiry of
  five minutes; a second \<^verbatim>\<open>Push\<close> for the same recipient before that expiry sends
  nothing.
\<close>

theorem Push_deduplicates:
  fixes w :: push_world
  shows "(p_redis_get_fault w = None \<and> r (ECHOOO_PUSH_UID @ uid) = Some (v, expires) \<and> v \<noteq> []
      \<and> p_now w < expires \<longrightarrow>
    Push w r uid content = \<lparr>p_err = None, p_store = r, p_calls = [], p_panicked = False\<rparr>)
   \<and> (p_redis_get_fault w = None
      \<and> GetString None (p_now w) (ECHOOO_PUSH_UID @ uid) r = Inr []
      \<and> serverAddresses w \<noteq> []
      \<and> Split (serverAddresses w) CHR '','' = pre @ server # post
      \<and> (\<forall>s \<in> set pre. http_Post w (push_url s) (push_req uid content) = PostErrWithResp)
      \<and> http_Post w (push_url server) (push_req uid content) = PostOk
      \<and> p_redis_set_fault w = None \<longrightarrow>
    p_calls (Push w r uid content) = push_calls uid content (pre @ [server])
    \<and> p_store (Push w r uid content) = r(ECHOOO_PUSH_UID @ uid \<mapsto> (''1'', p_now w + 5 * 60))
    \<and> (\<forall>(w' :: push_world) content'. p_redis_get_fault w' = None \<and> p_now w' < p_now w + 5 * 60 \<longrightarrow>
          Push w' (p_store (Push w r uid content)) uid content' =
            \<lparr>p_err = None, p_store = p_store (Push w r uid content), p_calls = [],
             p_panicked = False\<rparr>))"
proof (intro conjI impI allI)
  assume "p_redis_get_fault w = None \<and> r (ECHOOO_PUSH_UID @ uid) = Some (v, expires) \<and> v \<noteq> []
    \<and> p_now w < expires"
  then show "Push w r uid content =
      \<lparr>p_err = None, p_store = r, p_calls = [], p_panicked = False\<rparr>"
    by (simp add: Push_suppressed)
next
  assume a: "p_redis_get_fault w = None
    \<and> GetString None (p_now w) (ECHOOO_PUSH_UID @ uid) r = Inr []
    \<and> serverAddresses w \<noteq> []
    \<and> Split (serverAddresses w) CHR '','' = pre @ server # post
    \<and> (\<forall>s \<in> set pre. http_Post w (push_url s) (push_req uid content) = PostErrWithResp)
    \<and> http_Post w (push_url server) (push_req uid content) = PostOk
    \<and> p_redis_set_fault w = None"
  then have run: "Push w r uid content =
      \<lparr>p_err = None,
       p_store = r(ECHOOO_PUSH_UID @ uid \<mapsto> (''1'', p_now w + 5 * 60)),
       p_calls = push_calls uid content (pre @ [server]),
       p_panicked = False\<rparr>"
    by (simp add: Push_def push_servers_sent SetAndExpire_def Minute_def Second_def)
  show "p_calls (Push w r uid content) = push_calls uid content (pre @ [server])"
    by (simp add: run)
  show "p_store (Push w r uid content) =
      r(ECHOOO_PUSH_UID @ uid \<mapsto> (''1'', p_now w + 5 * 60))"
    by (simp add: run)
  fix w' :: push_world and content'
  assume "p_redis_get_fault w' = None \<and> p_now w' < p_now w + 5 * 60"
  then show "Push w' (p_store (Push w r uid content)) uid content' =
      \<lparr>p_err = None, p_store = p_store (Push w r uid content), p_calls = [],
       p_panicked = False\<rparr>"
    by (intro Push_suppressed [where v = "''1''" and expires = "p_now w + 5 * 60"])
       (simp_all add: run)
qed

theorem Push_deduplicates_witness:
  "Push (example_push_world\<lparr>p_now := 309\<rparr>) pushed_store ''u1'' ''again'' =
     \<lparr>p_err = None, p_store = pushed_store, p_calls = [], p_panicked = False\<rparr>
   \<and> p_calls (Push example_push_world Map.empty ''u1'' ''hi'') =
       push_calls ''u1'' ''hi'' [''a:1'', ''b:2'']
   \<and> p_store (Push example_push_world Map.empty ''u1'' ''hi'') = pushed_store
   \<and> p_calls (Push (example_push_world\<lparr>p_now := 309\<rparr>)
                (p_store (Push example_push_world Map.empty ''u1'' ''hi'')) ''u1'' ''again'') = []"
proof -
  have present: "p_redis_get_fault (example_push_world\<lparr>p_now := 309\<rparr>) = None
      \<and> pushed_store (ECHOOO_PUSH_UID @ ''u1'') = Some (''1'', 310) \<and> ''1'' \<noteq> []
      \<and> p_now (example_push_world\<lparr>p_now := 309\<rparr>) < 310"
    by (simp add: example_push_world_def pushed_store_def)
  have absent: "p_redis_get_fault example_push_world = None
      \<and> GetString None (p_now example_push_world) (ECHOOO_PUSH_UID @ ''u1'') Map.empty = Inr []
      \<and> serverAddresses example_push_world \<noteq> []
      \<and> Split (serverAddresses example_push_world) CHR '','' = [''a:1''] @ ''b:2'' # []
      \<and> (\<forall>s \<in> set [''a:1''].
            http_Post example_push_world (push_url s) (push_req ''u1'' ''hi'') = PostErrWithResp)
      \<and> http_Post example_push_world (push_url ''b:2'') (push_req ''u1'' ''hi'') = PostOk
      \<and> p_redis_set_fault example_push_world = None"
    by (simp add: example_push_world_def GetString_def push_url_def)
  have later: "p_redis_get_fault (example_push_world\<lparr>p_now := 309\<rparr>) = None
      \<and> p_now (example_push_world\<lparr>p_now := 309\<rparr>) < p_now example_push_world + 5 * 60"
    by (simp add: example_push_world_def)
  note first = Push_deduplicates [of example_push_world Map.empty "''u1''" "''1''" 310 "''hi''"
      "[''a:1'']" "''b:2''" "[]"]
  note second = Push_deduplicates [of "example_push_world\<lparr>p_now := 309\<rparr>" pushed_store
      "''u1''" "''1''" 310 "''again''" "[]" "[]" "[]"]
  have a: "Push (example_push_world\<lparr>p_now := 309\<rparr>) pushed_store ''u1'' ''again'' =
     \<lparr>p_err = None, p_store = pushed_store, p_calls = [], p_panicked = False\<rparr>"
    using second present by blast
  have b: "p_calls (Push example_push_world Map.empty ''u1'' ''hi'') =
       push_calls ''u1'' ''hi'' [''a:1'', ''b:2'']"
    using first absent by simp
  have c: "p_store (Push example_push_world Map.empty ''u1'' ''hi'') = pushed_store"
    using first absent by (simp add: pushed_store_def example_push_world_def)
  have "Push (example_push_world\<lparr>p_now := 309\<rparr>)
      (p_store (Push example_push_world Map.empty ''u1'' ''hi'')) ''u1'' ''again'' =
      \<lparr>p_err = None, p_store = p_store (Push example_push_world Map.empty ''u1'' ''hi''),
       p_calls = [], p_panicked = False\<rparr>"
    using first absent later by blast
  then have d: "p_calls (Push (example_push_world\<lparr>p_now := 309\<rparr>)
      (p_store (Push example_push_world Map.empty ''u1'' ''hi'')) ''u1'' ''again'') = []"
    by simp
  show ?thesis
    using a b c d by simp
qed

end
